theory Spec2Isabelle
  imports Complex_Main "HOL-Library.Word"
begin

section \<open>Data model of the reflow oven controller\<close>

text \<open>
  The firmware is one Arduino sketch: global variables, a start-up routine and \<open>loop()\<close>.
  The globals become one record, \<open>loop()\<close> becomes a function from the record and the
  values the environment returns during one iteration to the updated record.

  \<^item> \<open>unsigned long\<close> (and \<open>long\<close>) are 32-bit words: \<open>+\<close> and \<open>-\<close> wrap, comparisons
    are unsigned. \<open>lastDebounceTime\<close> is declared \<open>long\<close>, but it is only assigned from
    \<open>millis()\<close> and only used in \<open>millis() - lastDebounceTime\<close>, where it is converted
    back to \<open>unsigned long\<close>: the same 32 bits.
  \<^item> A \<open>double\<close> or \<open>float\<close> value is modelled by the real number it denotes.
    Comparisons of such values are exact. The arithmetic operations round, in a way that
    depends on the target (\<open>double\<close> has 32 bits on AVR boards and 64 bits on others), so
    the four operations of the ramp test are parameters of the model: nothing is assumed
    about how they round.
  \<^item> The two output pins that the loop drives are booleans (\<open>True\<close> is \<open>HIGH\<close>).
    The LCD and the serial port are written only and never read back; they are left out.
\<close>

type_synonym ulong = "32 word"

datatype reflowPhase_t =
    REFLOW_PHASE_IDLE
  | REFLOW_PHASE_PREHEAT
  | REFLOW_PHASE_SOAK
  | REFLOW_PHASE_REFLOW
  | REFLOW_PHASE_PEAK
  | REFLOW_PHASE_COOL
  | REFLOW_PHASE_COMPLETE
  | REFLOW_PHASE_TOO_HOT
  | REFLOW_PHASE_ERROR

datatype ovenStatus_t = OVEN_OFF | OVEN_ON

datatype button_t = BUTTON_NONE | BUTTON_1 | BUTTON_2

datatype debounceState_t =
    DEBOUNCE_STATE_IDLE
  | DEBOUNCE_STATE_CHECK
  | DEBOUNCE_STATE_RELEASE

record controller =
  nextRead :: ulong
  nextDisplay :: ulong
  phaseStartTime :: ulong
  temp :: real
  phaseStartTemp :: real
  buzzerPeriod :: ulong
  reflowPhase :: reflowPhase_t
  ovenStatus :: ovenStatus_t
  debounceState :: debounceState_t
  lastDebounceTime :: ulong
  buttonStatus :: button_t
  ssrPin :: bool
  buzzerPin :: bool

text \<open>
  What the environment answers during one pass through \<open>loop()\<close>. \<open>millis()\<close> is called
  at up to five places in one pass, and the clock may advance between them, so each call
  site has its own reading: the sampling test (line 210), the display test (line 227),
  the first call inside the phase \<open>switch\<close>, the second call inside it (only Soak and
  Peak make one, lines 318 and 365) and the call inside the debounce \<open>switch\<close>.
  \<open>readThermocouple\<close> is the value a sample would return if one is taken in this
  pass; \<open>analogRead\<close> is the reading of the button pin, a count of the 10-bit
  converter (0 when the button is pressed).
\<close>

record inputs =
  millisRead :: ulong
  millisDisplay :: ulong
  millisPhase :: ulong
  millisPhase2 :: ulong
  millisDebounce :: ulong
  readThermocouple :: real
  analogRead :: nat

text \<open>
  What the sketch takes from outside its own text. The three fault codes are macros of
  the MAX31855 library header, which is not part of the sketch. The other four fields are
  the floating-point operations that the ramp test of lines 301 and 347 uses: the
  subtraction of two \<open>double\<close> values, the conversion \<open>(float)\<close> of an
  \<open>unsigned long\<close>, the product and the quotient of two \<open>double\<close> values, each
  returning the rounded result.
\<close>

record platform =
  FAULT_OPEN :: real
  FAULT_SHORT_GND :: real
  FAULT_SHORT_VCC :: real
  doubleSub :: "real \<Rightarrow> real \<Rightarrow> real"
  floatOfULong :: "ulong \<Rightarrow> real"
  doubleMul :: "real \<Rightarrow> real \<Rightarrow> real"
  doubleDiv :: "real \<Rightarrow> real \<Rightarrow> real"

definition RAMPUP :: real where "RAMPUP = 3.0"
definition ROOM_TEMPERATURE :: real where "ROOM_TEMPERATURE = 50"
definition SOAK_TEMPERATURE :: real where "SOAK_TEMPERATURE = 150"
definition SOAK_PERIOD :: ulong where "SOAK_PERIOD = 90000"
definition PEAK_TEMPERATURE :: real where "PEAK_TEMPERATURE = 237"
definition PEAK_PERIOD :: ulong where "PEAK_PERIOD = 50000"
definition COOL_TEMPERATURE :: real where "COOL_TEMPERATURE = 100"
definition READ_INTERVAL_TIME :: ulong where "READ_INTERVAL_TIME = 200"
definition DISPLAY_INTERVAL_TIME :: ulong where "DISPLAY_INTERVAL_TIME = 1000"
definition DEBOUNCE_PERIOD_MIN :: ulong where "DEBOUNCE_PERIOD_MIN = 50"

section \<open>Start-up\<close>

text \<open>
  Globals start zeroed (phase Idle, oven off, debounce idle, no button, temperature 0);
  the start-up routine drives the SSR and the buzzer low and reads \<open>millis()\<close> twice
  (the routine is called \<^verbatim>\<open>setup\<close> in the sketch, a reserved word here).
\<close>

definition setup_sketch :: "ulong \<Rightarrow> ulong \<Rightarrow> controller" where
  "setup_sketch m1 m2 =
     \<lparr> nextRead = m1, nextDisplay = m2, phaseStartTime = 0, temp = 0,
       phaseStartTemp = 0, buzzerPeriod = 0,
       reflowPhase = REFLOW_PHASE_IDLE, ovenStatus = OVEN_OFF,
       debounceState = DEBOUNCE_STATE_IDLE, lastDebounceTime = 0,
       buttonStatus = BUTTON_NONE, ssrPin = False, buzzerPin = False \<rparr>"

section \<open>loop()\<close>

subsection \<open>Sampling and the fault test (lines 210-225)\<close>

definition thermocoupleFault :: "platform \<Rightarrow> real \<Rightarrow> bool" where
  "thermocoupleFault pf x \<longleftrightarrow>
     x = FAULT_OPEN pf \<or> x = FAULT_SHORT_GND pf \<or> x = FAULT_SHORT_VCC pf"

definition sampleStep :: "platform \<Rightarrow> inputs \<Rightarrow> controller \<Rightarrow> controller" where
  "sampleStep pf inp s =
     (if millisRead inp > nextRead s then
        let s1 = s\<lparr> nextRead := nextRead s + READ_INTERVAL_TIME,
                    temp := readThermocouple inp \<rparr>
        in if thermocoupleFault pf (temp s1)
           then s1\<lparr> reflowPhase := REFLOW_PHASE_ERROR, ovenStatus := OVEN_OFF \<rparr>
           else s1
      else s)"

subsection \<open>Display timer (lines 227-264)\<close>

definition displayStep :: "inputs \<Rightarrow> controller \<Rightarrow> controller" where
  "displayStep inp s =
     (if millisDisplay inp > nextDisplay s
      then s\<lparr> nextDisplay := nextDisplay s + DISPLAY_INTERVAL_TIME \<rparr>
      else s)"

subsection \<open>The phase switch (lines 267-432)\<close>

text \<open>
  The test of lines 301 and 347,
  \<^verbatim>\<open>(temp - phaseStartTemp) < ((float)(millis() - phaseStartTime) * RAMPUP / 1000.0)\<close>:
  the difference of the clock readings is the wrapping 32-bit one, and every
  floating-point operation is the rounded one of the target.
\<close>

definition rampAllows :: "platform \<Rightarrow> inputs \<Rightarrow> controller \<Rightarrow> bool" where
  "rampAllows pf inp s \<longleftrightarrow>
     doubleSub pf (temp s) (phaseStartTemp s)
       < doubleDiv pf
           (doubleMul pf (floatOfULong pf (millisPhase inp - phaseStartTime s)) RAMPUP)
           1000"

definition reflowSwitch :: "platform \<Rightarrow> inputs \<Rightarrow> controller \<Rightarrow> controller" where
  "reflowSwitch pf inp s =
     (case reflowPhase s of
        REFLOW_PHASE_IDLE \<Rightarrow>
          (let s1 = s\<lparr> ovenStatus := OVEN_OFF \<rparr>
           in if temp s1 \<ge> ROOM_TEMPERATURE
              then s1\<lparr> reflowPhase := REFLOW_PHASE_TOO_HOT \<rparr>
              else if buttonStatus s1 = BUTTON_1
                   then s1\<lparr> reflowPhase := REFLOW_PHASE_PREHEAT,
                             phaseStartTime := millisPhase inp,
                             phaseStartTemp := temp s1 \<rparr>
                   else s1)
      | REFLOW_PHASE_PREHEAT \<Rightarrow>
          (let s1 = s\<lparr> ovenStatus := OVEN_ON \<rparr>
           in if temp s1 \<ge> SOAK_TEMPERATURE
              then s1\<lparr> phaseStartTime := millisPhase inp,
                        phaseStartTemp := temp s1,
                        reflowPhase := REFLOW_PHASE_SOAK \<rparr>
              else if rampAllows pf inp s1
                   then s1\<lparr> ssrPin := True \<rparr>
                   else s1\<lparr> ssrPin := False \<rparr>)
      | REFLOW_PHASE_SOAK \<Rightarrow>
          (let s1 = s\<lparr> ovenStatus := OVEN_ON \<rparr>
           in if millisPhase inp > phaseStartTime s1 + SOAK_PERIOD
              then s1\<lparr> phaseStartTime := millisPhase2 inp,
                        phaseStartTemp := temp s1,
                        reflowPhase := REFLOW_PHASE_REFLOW \<rparr>
              else if temp s1 < SOAK_TEMPERATURE
                   then s1\<lparr> ssrPin := True \<rparr>
                   else s1\<lparr> ssrPin := False \<rparr>)
      | REFLOW_PHASE_REFLOW \<Rightarrow>
          (let s1 = s\<lparr> ovenStatus := OVEN_ON \<rparr>
           in if temp s1 \<ge> PEAK_TEMPERATURE
              then s1\<lparr> phaseStartTime := millisPhase inp,
                        phaseStartTemp := temp s1,
                        reflowPhase := REFLOW_PHASE_PEAK \<rparr>
              else if rampAllows pf inp s1
                   then s1\<lparr> ssrPin := True \<rparr>
                   else s1\<lparr> ssrPin := False \<rparr>)
      | REFLOW_PHASE_PEAK \<Rightarrow>
          (let s1 = s\<lparr> ovenStatus := OVEN_ON \<rparr>
           in if millisPhase inp > phaseStartTime s1 + PEAK_PERIOD
              then s1\<lparr> ssrPin := False,
                        ovenStatus := OVEN_OFF,
                        phaseStartTime := millisPhase2 inp,
                        phaseStartTemp := temp s1,
                        reflowPhase := REFLOW_PHASE_COOL \<rparr>
              else if temp s1 < PEAK_TEMPERATURE
                   then s1\<lparr> ssrPin := True \<rparr>
                   else s1\<lparr> ssrPin := False \<rparr>)
      | REFLOW_PHASE_COOL \<Rightarrow>
          (let s1 = s\<lparr> ovenStatus := OVEN_OFF \<rparr>
           in if temp s1 \<le> COOL_TEMPERATURE
              then s1\<lparr> buzzerPeriod := millisPhase inp + 1000,
                        buzzerPin := True,
                        reflowPhase := REFLOW_PHASE_COMPLETE \<rparr>
              else s1)
      | REFLOW_PHASE_COMPLETE \<Rightarrow>
          (let s1 = s\<lparr> ovenStatus := OVEN_OFF \<rparr>
           in if millisPhase inp > buzzerPeriod s1
              then s1\<lparr> buzzerPin := False,
                        reflowPhase := REFLOW_PHASE_IDLE \<rparr>
              else s1)
      | REFLOW_PHASE_TOO_HOT \<Rightarrow>
          (let s1 = s\<lparr> ovenStatus := OVEN_OFF \<rparr>
           in if temp s1 < ROOM_TEMPERATURE
              then s1\<lparr> reflowPhase := REFLOW_PHASE_IDLE \<rparr>
              else s1)
      | REFLOW_PHASE_ERROR \<Rightarrow>
          (let s1 = s\<lparr> ovenStatus := OVEN_OFF \<rparr>
           in if thermocoupleFault pf (temp s1)
              then s1\<lparr> reflowPhase := REFLOW_PHASE_ERROR \<rparr>
              else s1\<lparr> reflowPhase := REFLOW_PHASE_IDLE \<rparr>))"

subsection \<open>The cancel test (lines 434-447)\<close>

definition cancelStep :: "controller \<Rightarrow> controller" where
  "cancelStep s =
     (if buttonStatus s = BUTTON_1
      then if ovenStatus s = OVEN_ON
           then s\<lparr> ovenStatus := OVEN_OFF, ssrPin := False,
                    reflowPhase := REFLOW_PHASE_IDLE \<rparr>
           else s
      else s)"

subsection \<open>The debounce switch (lines 449-492)\<close>

definition debounceSwitch :: "inputs \<Rightarrow> controller \<Rightarrow> controller" where
  "debounceSwitch inp s =
     (case debounceState s of
        DEBOUNCE_STATE_IDLE \<Rightarrow>
          (let s1 = s\<lparr> buttonStatus := BUTTON_NONE \<rparr>
           in if analogRead inp = 0
              then s1\<lparr> lastDebounceTime := millisDebounce inp,
                        debounceState := DEBOUNCE_STATE_CHECK \<rparr>
              else s1)
      | DEBOUNCE_STATE_CHECK \<Rightarrow>
          (if analogRead inp = 0
           then if millisDebounce inp - lastDebounceTime s > DEBOUNCE_PERIOD_MIN
                then s\<lparr> debounceState := DEBOUNCE_STATE_RELEASE \<rparr>
                else s
           else s\<lparr> debounceState := DEBOUNCE_STATE_IDLE \<rparr>)
      | DEBOUNCE_STATE_RELEASE \<Rightarrow>
          (if analogRead inp > 0
           then s\<lparr> buttonStatus := BUTTON_1,
                    debounceState := DEBOUNCE_STATE_IDLE \<rparr>
           else s))"

subsection \<open>The closing safety clause (lines 494-498) and the whole pass\<close>

definition ssrGuard :: "controller \<Rightarrow> controller" where
  "ssrGuard s = (if ovenStatus s = OVEN_OFF then s\<lparr> ssrPin := False \<rparr> else s)"

definition loop :: "platform \<Rightarrow> inputs \<Rightarrow> controller \<Rightarrow> controller" where
  "loop pf inp s =
     ssrGuard (debounceSwitch inp (cancelStep
       (reflowSwitch pf inp (displayStep inp (sampleStep pf inp s)))))"

text \<open>Running \<open>loop()\<close> over a list of environment answers, one per pass.\<close>

fun run :: "platform \<Rightarrow> inputs list \<Rightarrow> controller \<Rightarrow> controller" where
  "run pf [] s = s"
| "run pf (inp # inps) s = run pf inps (loop pf inp s)"

text \<open>The states the device can be in between two passes.\<close>

inductive reachable :: "platform \<Rightarrow> controller \<Rightarrow> bool" for pf :: platform where
  reachable_setup: "reachable pf (setup_sketch m1 m2)"
| reachable_loop: "reachable pf s \<Longrightarrow> reachable pf (loop pf inp s)"

section \<open>Vocabulary for the statements\<close>

text \<open>
  A pass samples a fault when the sampling timer is due (line 210) and the value read is
  one of the three fault codes (lines 218-219).
\<close>

definition faultSampled :: "platform \<Rightarrow> inputs \<Rightarrow> controller \<Rightarrow> bool" where
  "faultSampled pf inp s \<longleftrightarrow>
     millisRead inp > nextRead s \<and> thermocoupleFault pf (readThermocouple inp)"

text \<open>The four phases whose \<open>case\<close> sets \<open>ovenStatus = OVEN_ON\<close>.\<close>

definition heating :: "reflowPhase_t \<Rightarrow> bool" where
  "heating p \<longleftrightarrow>
     p = REFLOW_PHASE_PREHEAT \<or> p = REFLOW_PHASE_SOAK \<or>
     p = REFLOW_PHASE_REFLOW \<or> p = REFLOW_PHASE_PEAK"

text \<open>The phase switch followed by the cancel test: lines 267-447 as one step.\<close>

definition control :: "platform \<Rightarrow> inputs \<Rightarrow> controller \<Rightarrow> controller" where
  "control pf inp s = cancelStep (reflowSwitch pf inp s)"

text \<open>
  The value of \<open>buttonStatus\<close> at the end of each pass of a run: what the phase switch
  and the cancel test of the following pass will see.
\<close>

fun buttonEvents :: "platform \<Rightarrow> inputs list \<Rightarrow> controller \<Rightarrow> button_t list" where
  "buttonEvents pf [] s = []"
| "buttonEvents pf (inp # inps) s =
     buttonStatus (loop pf inp s) # buttonEvents pf inps (loop pf inp s)"

subsection \<open>Concrete inputs for the worked examples\<close>

text \<open>
  A platform for the examples: three fault codes far above any oven temperature, and
  arithmetic that does not round. In the example runs below every ramp test either
  compares a difference of whole degrees with a whole number of degrees (the elapsed time
  is 1000 ms) or compares a difference of zero with a positive quotient, so that rounding
  has nothing to change.
\<close>

definition example_platform :: platform where
  "example_platform =
     \<lparr> FAULT_OPEN = 10000, FAULT_SHORT_GND = 10001, FAULT_SHORT_VCC = 10002,
       doubleSub = (\<lambda>x y. x - y), floatOfULong = (\<lambda>w. real (unat w)),
       doubleMul = (\<lambda>x y. x * y), doubleDiv = (\<lambda>x y. x / y) \<rparr>"

text \<open>A pass during which the clock reads \<open>t\<close> at every call site.\<close>

definition pass :: "ulong \<Rightarrow> real \<Rightarrow> nat \<Rightarrow> inputs" where
  "pass t x a =
     \<lparr> millisRead = t, millisDisplay = t, millisPhase = t, millisPhase2 = t,
       millisDebounce = t, readThermocouple = x, analogRead = a \<rparr>"

text \<open>The state right after start-up, with the clock at 0.\<close>

definition power_on :: controller where
  "power_on = setup_sketch 0 0"

text \<open>
  One complete run, in pieces. The button is read pressed at 0 ms and at 51 ms and
  released at 52 ms; the pass at 53 ms sees the validated press in Idle at 20 degrees.
\<close>

definition press_trace :: "inputs list" where
  "press_trace = [pass 0 20 0, pass 51 20 0, pass 52 20 1]"

definition start_trace :: "inputs list" where
  "start_trace = press_trace @ [pass 53 20 1]"

text \<open>One more pass: Preheat, heater on.\<close>

definition heat_trace :: "inputs list" where
  "heat_trace = start_trace @ [pass 54 20 1]"

text \<open>The sample at 300 ms reads 150 degrees: Soak.\<close>

definition soak_trace :: "inputs list" where
  "soak_trace = heat_trace @ [pass 300 150 1]"

text \<open>One millisecond after the soak period: Reflow.\<close>

definition reflow_trace :: "inputs list" where
  "reflow_trace = soak_trace @ [pass 90301 150 1]"

text \<open>
  237 degrees: Peak. Then the button is pressed for 100 ms and released, so that a
  validated press is pending in Peak.
\<close>

definition peak_trace :: "inputs list" where
  "peak_trace = reflow_trace @
     [pass 90302 237 1, pass 140000 237 0, pass 140100 237 0, pass 140200 237 1]"

text \<open>One millisecond after the peak period: Cool.\<close>

definition cool_trace :: "inputs list" where
  "cool_trace = peak_trace @ [pass 140303 237 1]"

text \<open>Branches of the run: a second press, validated while the oven heats.\<close>

definition preheat_press_trace :: "inputs list" where
  "preheat_press_trace = heat_trace @ [pass 100 20 0, pass 200 20 0, pass 201 20 1]"

definition soak_press_trace :: "inputs list" where
  "soak_press_trace = soak_trace @ [pass 1000 149 0, pass 1100 149 0, pass 1200 149 1]"

definition reflow_press_trace :: "inputs list" where
  "reflow_press_trace = reflow_trace @ [pass 90400 150 0, pass 90500 150 0, pass 90600 150 1]"

text \<open>Cool reaches 100 degrees at 200000 ms: Complete.\<close>

definition complete_trace :: "inputs list" where
  "complete_trace = cool_trace @ [pass 200000 100 1]"

text \<open>
  The same two steps late in the life of the 32-bit clock, which wraps at 4294967296 ms
  (a little under 50 days): a run started at 4294899000 ms that enters Soak at
  4294900000 ms, and a Cool that reaches 100 degrees at 4294966796 ms.
\<close>

definition late_soak_trace :: "inputs list" where
  "late_soak_trace =
     [pass 4294899000 20 0, pass 4294899100 20 0, pass 4294899200 20 1,
      pass 4294899300 20 1, pass 4294899400 20 1, pass 4294900000 150 1]"

definition late_complete_trace :: "inputs list" where
  "late_complete_trace = cool_trace @ [pass 4294966796 100 1]"

text \<open>
  The phase switch of a pass takes a threshold transition: it is entered in Preheat and
  left in Soak, entered in Soak and left in Reflow, or entered in Reflow and left in Peak.
\<close>

definition transitionFires :: "platform \<Rightarrow> inputs \<Rightarrow> controller \<Rightarrow> bool" where
  "transitionFires pf inp s \<longleftrightarrow>
     reflowPhase (displayStep inp (sampleStep pf inp s)) = REFLOW_PHASE_PREHEAT \<and>
     reflowPhase (reflowSwitch pf inp (displayStep inp (sampleStep pf inp s)))
       = REFLOW_PHASE_SOAK \<or>
     reflowPhase (displayStep inp (sampleStep pf inp s)) = REFLOW_PHASE_SOAK \<and>
     reflowPhase (reflowSwitch pf inp (displayStep inp (sampleStep pf inp s)))
       = REFLOW_PHASE_REFLOW \<or>
     reflowPhase (displayStep inp (sampleStep pf inp s)) = REFLOW_PHASE_REFLOW \<and>
     reflowPhase (reflowSwitch pf inp (displayStep inp (sampleStep pf inp s)))
       = REFLOW_PHASE_PEAK"

section \<open>Each step touches only its own variables\<close>

lemmas consts_defs = RAMPUP_def ROOM_TEMPERATURE_def SOAK_TEMPERATURE_def SOAK_PERIOD_def
  PEAK_TEMPERATURE_def PEAK_PERIOD_def COOL_TEMPERATURE_def READ_INTERVAL_TIME_def
  DISPLAY_INTERVAL_TIME_def DEBOUNCE_PERIOD_MIN_def

lemmas step_defs = sampleStep_def displayStep_def reflowSwitch_def cancelStep_def
  debounceSwitch_def ssrGuard_def

lemma example_platform_simps [simp]:
  "FAULT_OPEN example_platform = 10000"
  "FAULT_SHORT_GND example_platform = 10001"
  "FAULT_SHORT_VCC example_platform = 10002"
  "doubleSub example_platform x y = x - y"
  "floatOfULong example_platform w = real (unat w)"
  "doubleMul example_platform x y = x * y"
  "doubleDiv example_platform x y = x / y"
  by (simp_all add: example_platform_def)

lemmas eval_defs = loop_def step_defs consts_defs pass_def
  thermocoupleFault_def rampAllows_def faultSampled_def Let_def

lemma debounce_frame [simp]:
  "reflowPhase (debounceSwitch inp s) = reflowPhase s"
  "ovenStatus (debounceSwitch inp s) = ovenStatus s"
  "ssrPin (debounceSwitch inp s) = ssrPin s"
  "buzzerPin (debounceSwitch inp s) = buzzerPin s"
  "buzzerPeriod (debounceSwitch inp s) = buzzerPeriod s"
  "temp (debounceSwitch inp s) = temp s"
  "phaseStartTime (debounceSwitch inp s) = phaseStartTime s"
  "phaseStartTemp (debounceSwitch inp s) = phaseStartTemp s"
  "nextRead (debounceSwitch inp s) = nextRead s"
  by (cases "debounceState s"; simp add: debounceSwitch_def Let_def)+

lemma ssrGuard_frame [simp]:
  "reflowPhase (ssrGuard s) = reflowPhase s"
  "ovenStatus (ssrGuard s) = ovenStatus s"
  "buzzerPin (ssrGuard s) = buzzerPin s"
  "buzzerPeriod (ssrGuard s) = buzzerPeriod s"
  "temp (ssrGuard s) = temp s"
  "phaseStartTime (ssrGuard s) = phaseStartTime s"
  "phaseStartTemp (ssrGuard s) = phaseStartTemp s"
  "nextRead (ssrGuard s) = nextRead s"
  "debounceState (ssrGuard s) = debounceState s"
  "lastDebounceTime (ssrGuard s) = lastDebounceTime s"
  "buttonStatus (ssrGuard s) = buttonStatus s"
  by (simp_all add: ssrGuard_def)

lemma ssrGuard_ssr: "ssrPin (ssrGuard s) \<longleftrightarrow> ovenStatus s = OVEN_ON \<and> ssrPin s"
  by (cases "ovenStatus s") (simp_all add: ssrGuard_def)

lemma displayStep_frame [simp]:
  "reflowPhase (displayStep inp s) = reflowPhase s"
  "ovenStatus (displayStep inp s) = ovenStatus s"
  "ssrPin (displayStep inp s) = ssrPin s"
  "buzzerPin (displayStep inp s) = buzzerPin s"
  "buzzerPeriod (displayStep inp s) = buzzerPeriod s"
  "temp (displayStep inp s) = temp s"
  "phaseStartTime (displayStep inp s) = phaseStartTime s"
  "phaseStartTemp (displayStep inp s) = phaseStartTemp s"
  "nextRead (displayStep inp s) = nextRead s"
  "debounceState (displayStep inp s) = debounceState s"
  "lastDebounceTime (displayStep inp s) = lastDebounceTime s"
  "buttonStatus (displayStep inp s) = buttonStatus s"
  by (simp_all add: displayStep_def)

lemma sampleStep_frame [simp]:
  "ssrPin (sampleStep pf inp s) = ssrPin s"
  "buzzerPin (sampleStep pf inp s) = buzzerPin s"
  "buzzerPeriod (sampleStep pf inp s) = buzzerPeriod s"
  "phaseStartTime (sampleStep pf inp s) = phaseStartTime s"
  "phaseStartTemp (sampleStep pf inp s) = phaseStartTemp s"
  "debounceState (sampleStep pf inp s) = debounceState s"
  "lastDebounceTime (sampleStep pf inp s) = lastDebounceTime s"
  "buttonStatus (sampleStep pf inp s) = buttonStatus s"
  by (simp_all add: sampleStep_def Let_def)

lemma sampleStep_temp:
  "temp (sampleStep pf inp s) =
     (if millisRead inp > nextRead s then readThermocouple inp else temp s)"
  by (simp add: sampleStep_def Let_def)

lemma sampleStep_phase:
  "reflowPhase (sampleStep pf inp s) =
     (if faultSampled pf inp s then REFLOW_PHASE_ERROR else reflowPhase s)"
  by (simp add: sampleStep_def Let_def faultSampled_def)

lemma sampleStep_status:
  "ovenStatus (sampleStep pf inp s) =
     (if faultSampled pf inp s then OVEN_OFF else ovenStatus s)"
  by (simp add: sampleStep_def Let_def faultSampled_def)

lemma sampleStep_fault_temp:
  "faultSampled pf inp s \<Longrightarrow> thermocoupleFault pf (temp (sampleStep pf inp s))"
  by (simp add: sampleStep_def Let_def faultSampled_def)

lemma cancelStep_frame [simp]:
  "buzzerPin (cancelStep s) = buzzerPin s"
  "buzzerPeriod (cancelStep s) = buzzerPeriod s"
  "temp (cancelStep s) = temp s"
  "phaseStartTime (cancelStep s) = phaseStartTime s"
  "phaseStartTemp (cancelStep s) = phaseStartTemp s"
  "nextRead (cancelStep s) = nextRead s"
  "debounceState (cancelStep s) = debounceState s"
  "lastDebounceTime (cancelStep s) = lastDebounceTime s"
  "buttonStatus (cancelStep s) = buttonStatus s"
  by (simp_all add: cancelStep_def)

lemma reflowSwitch_frame [simp]:
  "temp (reflowSwitch pf inp s) = temp s"
  "nextRead (reflowSwitch pf inp s) = nextRead s"
  "debounceState (reflowSwitch pf inp s) = debounceState s"
  "lastDebounceTime (reflowSwitch pf inp s) = lastDebounceTime s"
  "buttonStatus (reflowSwitch pf inp s) = buttonStatus s"
  by (cases "reflowPhase s"; simp add: reflowSwitch_def Let_def)+

lemma loop_control:
  "loop pf inp s =
     ssrGuard (debounceSwitch inp (control pf inp (displayStep inp (sampleStep pf inp s))))"
  by (simp add: loop_def control_def)

lemma loop_temp [simp]: "temp (loop pf inp s) = temp (sampleStep pf inp s)"
  by (simp add: loop_def)

lemma loop_fault:
  assumes "faultSampled pf inp s"
  shows "reflowPhase (loop pf inp s) = REFLOW_PHASE_ERROR"
    and "ovenStatus (loop pf inp s) = OVEN_OFF"
  using assms sampleStep_fault_temp [OF assms]
  by (simp_all add: loop_def reflowSwitch_def cancelStep_def Let_def
        sampleStep_phase sampleStep_status)

lemma reachable_run: "reachable pf s \<Longrightarrow> reachable pf (run pf inps s)"
  by (induction inps arbitrary: s) (auto intro: reachable_loop)

lemma run_append: "run pf (xs @ ys) s = run pf ys (run pf xs s)"
  by (induction xs arbitrary: s) simp_all

lemma loop_ssr_guard:
  "ovenStatus (loop pf inp s) = OVEN_OFF \<Longrightarrow> \<not> ssrPin (loop pf inp s)"
  by (simp add: loop_def ssrGuard_ssr)

lemma loop_phase:
  "reflowPhase (loop pf inp s) =
     reflowPhase (control pf inp (displayStep inp (sampleStep pf inp s)))"
  by (simp add: loop_control)


text \<open>A pass without a sampled fault and without a pending press skips the cancel branch.\<close>

lemma loop_table:
  assumes "\<not> faultSampled pf inp s" and "buttonStatus s \<noteq> BUTTON_1"
  shows "loop pf inp s =
     ssrGuard (debounceSwitch inp (reflowSwitch pf inp (displayStep inp (sampleStep pf inp s))))"
  using assms by (simp add: loop_def cancelStep_def)

section \<open>The example run\<close>

lemma example_reachable: "reachable example_platform (run example_platform inps power_on)"
  unfolding power_on_def by (rule reachable_run) (rule reachable_setup)

lemma press_state:
  "run example_platform press_trace power_on =
     \<lparr> nextRead = 200, nextDisplay = 1000, phaseStartTime = 0, temp = 20,
       phaseStartTemp = 0, buzzerPeriod = 0,
       reflowPhase = REFLOW_PHASE_IDLE, ovenStatus = OVEN_OFF,
       debounceState = DEBOUNCE_STATE_IDLE, lastDebounceTime = 0,
       buttonStatus = BUTTON_1, ssrPin = False, buzzerPin = False \<rparr>"
  by (simp add: press_trace_def power_on_def setup_sketch_def eval_defs)

lemma start_state:
  "run example_platform start_trace power_on =
     \<lparr> nextRead = 200, nextDisplay = 1000, phaseStartTime = 53, temp = 20,
       phaseStartTemp = 20, buzzerPeriod = 0,
       reflowPhase = REFLOW_PHASE_PREHEAT, ovenStatus = OVEN_OFF,
       debounceState = DEBOUNCE_STATE_IDLE, lastDebounceTime = 0,
       buttonStatus = BUTTON_NONE, ssrPin = False, buzzerPin = False \<rparr>"
  by (simp add: start_trace_def run_append press_state eval_defs)

lemma heat_state:
  "run example_platform heat_trace power_on =
     \<lparr> nextRead = 200, nextDisplay = 1000, phaseStartTime = 53, temp = 20,
       phaseStartTemp = 20, buzzerPeriod = 0,
       reflowPhase = REFLOW_PHASE_PREHEAT, ovenStatus = OVEN_ON,
       debounceState = DEBOUNCE_STATE_IDLE, lastDebounceTime = 0,
       buttonStatus = BUTTON_NONE, ssrPin = True, buzzerPin = False \<rparr>"
  by (simp add: heat_trace_def run_append start_state eval_defs)

lemma soak_state:
  "run example_platform soak_trace power_on =
     \<lparr> nextRead = 400, nextDisplay = 1000, phaseStartTime = 300, temp = 150,
       phaseStartTemp = 150, buzzerPeriod = 0,
       reflowPhase = REFLOW_PHASE_SOAK, ovenStatus = OVEN_ON,
       debounceState = DEBOUNCE_STATE_IDLE, lastDebounceTime = 0,
       buttonStatus = BUTTON_NONE, ssrPin = True, buzzerPin = False \<rparr>"
  by (simp add: soak_trace_def run_append heat_state eval_defs)

lemma reflow_state:
  "run example_platform reflow_trace power_on =
     \<lparr> nextRead = 600, nextDisplay = 2000, phaseStartTime = 90301, temp = 150,
       phaseStartTemp = 150, buzzerPeriod = 0,
       reflowPhase = REFLOW_PHASE_REFLOW, ovenStatus = OVEN_ON,
       debounceState = DEBOUNCE_STATE_IDLE, lastDebounceTime = 0,
       buttonStatus = BUTTON_NONE, ssrPin = True, buzzerPin = False \<rparr>"
  by (simp add: reflow_trace_def run_append soak_state eval_defs)

lemma peak_state:
  "run example_platform peak_trace power_on =
     \<lparr> nextRead = 1400, nextDisplay = 6000, phaseStartTime = 90302, temp = 237,
       phaseStartTemp = 237, buzzerPeriod = 0,
       reflowPhase = REFLOW_PHASE_PEAK, ovenStatus = OVEN_ON,
       debounceState = DEBOUNCE_STATE_IDLE, lastDebounceTime = 140000,
       buttonStatus = BUTTON_1, ssrPin = False, buzzerPin = False \<rparr>"
  by (simp add: peak_trace_def run_append reflow_state eval_defs)

lemma cool_state:
  "run example_platform cool_trace power_on =
     \<lparr> nextRead = 1600, nextDisplay = 7000, phaseStartTime = 140303, temp = 237,
       phaseStartTemp = 237, buzzerPeriod = 0,
       reflowPhase = REFLOW_PHASE_COOL, ovenStatus = OVEN_OFF,
       debounceState = DEBOUNCE_STATE_IDLE, lastDebounceTime = 140000,
       buttonStatus = BUTTON_NONE, ssrPin = False, buzzerPin = False \<rparr>"
  by (simp add: cool_trace_def run_append peak_state eval_defs)

lemma preheat_press_state:
  "run example_platform preheat_press_trace power_on =
     \<lparr> nextRead = 400, nextDisplay = 1000, phaseStartTime = 53, temp = 20,
       phaseStartTemp = 20, buzzerPeriod = 0,
       reflowPhase = REFLOW_PHASE_PREHEAT, ovenStatus = OVEN_ON,
       debounceState = DEBOUNCE_STATE_IDLE, lastDebounceTime = 100,
       buttonStatus = BUTTON_1, ssrPin = True, buzzerPin = False \<rparr>"
  by (simp add: preheat_press_trace_def run_append heat_state eval_defs)

lemma soak_press_state:
  "run example_platform soak_press_trace power_on =
     \<lparr> nextRead = 1000, nextDisplay = 2000, phaseStartTime = 300, temp = 149,
       phaseStartTemp = 150, buzzerPeriod = 0,
       reflowPhase = REFLOW_PHASE_SOAK, ovenStatus = OVEN_ON,
       debounceState = DEBOUNCE_STATE_IDLE, lastDebounceTime = 1000,
       buttonStatus = BUTTON_1, ssrPin = True, buzzerPin = False \<rparr>"
  by (simp add: soak_press_trace_def run_append soak_state eval_defs)

lemma reflow_press_state:
  "run example_platform reflow_press_trace power_on =
     \<lparr> nextRead = 1200, nextDisplay = 5000, phaseStartTime = 90301, temp = 150,
       phaseStartTemp = 150, buzzerPeriod = 0,
       reflowPhase = REFLOW_PHASE_REFLOW, ovenStatus = OVEN_ON,
       debounceState = DEBOUNCE_STATE_IDLE, lastDebounceTime = 90400,
       buttonStatus = BUTTON_1, ssrPin = True, buzzerPin = False \<rparr>"
  by (simp add: reflow_press_trace_def run_append reflow_state eval_defs)

lemma complete_state:
  "run example_platform complete_trace power_on =
     \<lparr> nextRead = 1800, nextDisplay = 8000, phaseStartTime = 140303, temp = 100,
       phaseStartTemp = 237, buzzerPeriod = 201000,
       reflowPhase = REFLOW_PHASE_COMPLETE, ovenStatus = OVEN_OFF,
       debounceState = DEBOUNCE_STATE_IDLE, lastDebounceTime = 140000,
       buttonStatus = BUTTON_NONE, ssrPin = False, buzzerPin = True \<rparr>"
  by (simp add: complete_trace_def run_append cool_state eval_defs)

lemma late_soak_state:
  "run example_platform late_soak_trace power_on =
     \<lparr> nextRead = 1200, nextDisplay = 6000, phaseStartTime = 4294900000, temp = 150,
       phaseStartTemp = 150, buzzerPeriod = 0,
       reflowPhase = REFLOW_PHASE_SOAK, ovenStatus = OVEN_ON,
       debounceState = DEBOUNCE_STATE_IDLE, lastDebounceTime = 4294899000,
       buttonStatus = BUTTON_NONE, ssrPin = True, buzzerPin = False \<rparr>"
  by (simp add: late_soak_trace_def power_on_def setup_sketch_def eval_defs)

lemma late_complete_state:
  "run example_platform late_complete_trace power_on =
     \<lparr> nextRead = 1800, nextDisplay = 8000, phaseStartTime = 140303, temp = 100,
       phaseStartTemp = 237, buzzerPeriod = 500,
       reflowPhase = REFLOW_PHASE_COMPLETE, ovenStatus = OVEN_OFF,
       debounceState = DEBOUNCE_STATE_IDLE, lastDebounceTime = 140000,
       buttonStatus = BUTTON_NONE, ssrPin = False, buzzerPin = True \<rparr>"
  by (simp add: late_complete_trace_def run_append cool_state eval_defs)

text \<open>
  A deadline \<open>a + d\<close> that does not pass the end of the 32-bit range compares as the
  numbers do.
\<close>

lemma deadline_no_wrap:
  fixes t a d :: ulong
  assumes "unat a + unat d < 2 ^ 32"
  shows "t \<le> a + d \<longleftrightarrow> unat t \<le> unat a + unat d"
    and "t > a + d \<longleftrightarrow> unat t > unat a + unat d"
proof -
  from assms have "unat (a + d) = unat a + unat d"
    by (simp add: unat_add_lem [THEN iffD1])
  then show "t \<le> a + d \<longleftrightarrow> unat t \<le> unat a + unat d"
    and "t > a + d \<longleftrightarrow> unat t > unat a + unat d"
    by (simp_all add: word_le_nat_alt word_less_nat_alt)
qed

section \<open>Heater and oven status\<close>

text \<open>
  C1. In every reachable state, and at the end of every pass through \<open>loop()\<close> started
  in a reachable state, the SSR pin is low whenever \<open>ovenStatus\<close> is \<open>OVEN_OFF\<close>. The
  proof uses only the closing clause of the loop, so the phase and the path taken
  (phase switch, fault branch, cancel branch) play no role.
\<close>

theorem heater_off_when_oven_off:
  "reachable pf s \<Longrightarrow>
     (ovenStatus s = OVEN_OFF \<longrightarrow> \<not> ssrPin s) \<and>
     (ovenStatus (loop pf inp s) = OVEN_OFF \<longrightarrow> \<not> ssrPin (loop pf inp s))"
proof (induction rule: reachable.induct)
  case (reachable_setup m1 m2)
  show ?case using loop_ssr_guard by (simp add: setup_sketch_def)
next
  case (reachable_loop s i)
  show ?case using loop_ssr_guard by blast
qed

text \<open>
  At the Peak state of the example run the press is pending; the pass at 140250 ms
  cancels, the oven status goes off and the pin is low.
\<close>

theorem heater_off_when_oven_off_witness:
  "reachable example_platform (run example_platform peak_trace power_on) \<and>
   ovenStatus (loop example_platform (pass 140250 200 1)
     (run example_platform peak_trace power_on)) = OVEN_OFF \<and>
   \<not> ssrPin (loop example_platform (pass 140250 200 1)
     (run example_platform peak_trace power_on))"
proof -
  let ?s = "run example_platform peak_trace power_on"
  have r: "reachable example_platform ?s"
    by (rule example_reachable)
  have off: "ovenStatus (loop example_platform (pass 140250 200 1) ?s) = OVEN_OFF"
    by (simp add: peak_state eval_defs)
  show ?thesis
    using r off heater_off_when_oven_off [OF r, of "pass 140250 200 1"] by blast
qed

section \<open>Agreement of phase and oven status\<close>

lemma control_on_heating:
  "ovenStatus (control pf inp s) = OVEN_ON \<longrightarrow> heating (reflowPhase (control pf inp s))"
  by (cases "reflowPhase s")
     (simp_all add: control_def reflowSwitch_def cancelStep_def Let_def heating_def)

lemma control_later_on:
  "reflowPhase (control pf inp s) = REFLOW_PHASE_SOAK \<or>
   reflowPhase (control pf inp s) = REFLOW_PHASE_REFLOW \<or>
   reflowPhase (control pf inp s) = REFLOW_PHASE_PEAK
   \<longrightarrow> ovenStatus (control pf inp s) = OVEN_ON"
  by (cases "reflowPhase s")
     (simp_all add: control_def reflowSwitch_def cancelStep_def Let_def)

lemma control_preheat_off:
  "reflowPhase (control pf inp s) = REFLOW_PHASE_PREHEAT \<and>
   ovenStatus (control pf inp s) = OVEN_OFF
   \<longrightarrow> reflowPhase s = REFLOW_PHASE_IDLE \<and> buttonStatus s = BUTTON_1"
  by (cases "reflowPhase s")
     (simp_all add: control_def reflowSwitch_def cancelStep_def Let_def)

lemma loop_on_heating:
  "ovenStatus (loop pf inp s) = OVEN_ON \<Longrightarrow> heating (reflowPhase (loop pf inp s))"
  using control_on_heating [of pf inp "displayStep inp (sampleStep pf inp s)"]
  by (simp add: loop_control)

lemma loop_later_on:
  "reflowPhase (loop pf inp s) = REFLOW_PHASE_SOAK \<or>
   reflowPhase (loop pf inp s) = REFLOW_PHASE_REFLOW \<or>
   reflowPhase (loop pf inp s) = REFLOW_PHASE_PEAK
   \<Longrightarrow> ovenStatus (loop pf inp s) = OVEN_ON"
  using control_later_on [of pf inp "displayStep inp (sampleStep pf inp s)"]
  by (simp add: loop_control)

lemma loop_preheat_off:
  assumes "reflowPhase (loop pf inp s) = REFLOW_PHASE_PREHEAT"
    and "ovenStatus (loop pf inp s) = OVEN_OFF"
  shows "reflowPhase s = REFLOW_PHASE_IDLE \<and> buttonStatus s = BUTTON_1"
proof (cases "faultSampled pf inp s")
  case True
  with assms(1) show ?thesis by (simp add: loop_fault)
next
  case False
  with assms control_preheat_off [of pf inp "displayStep inp (sampleStep pf inp s)"]
  show ?thesis by (simp add: loop_control sampleStep_phase)
qed

lemma reachable_agree:
  "reachable pf s \<Longrightarrow>
     (ovenStatus s = OVEN_ON \<longrightarrow> heating (reflowPhase s)) \<and>
     (reflowPhase s = REFLOW_PHASE_SOAK \<or> reflowPhase s = REFLOW_PHASE_REFLOW \<or>
      reflowPhase s = REFLOW_PHASE_PEAK \<longrightarrow> ovenStatus s = OVEN_ON)"
proof (induction rule: reachable.induct)
  case (reachable_setup m1 m2)
  show ?case by (simp add: setup_sketch_def)
next
  case (reachable_loop s i)
  show ?case
    using loop_on_heating [of pf i s] loop_later_on [of pf i s] by blast
qed

text \<open>
  C2, as stated, fails. The pass in which Idle accepts the start press sets the phase to
  Preheat and leaves \<open>ovenStatus = OVEN_OFF\<close> (line 270); the status becomes
  \<open>OVEN_ON\<close> only in the next pass. After pressing the button for 51 ms at 20 degrees the
  device is in Preheat with the oven status off.
\<close>

theorem status_on_iff_heating_counterexample:
  "reachable example_platform (run example_platform start_trace power_on) \<and>
   reflowPhase (run example_platform start_trace power_on) = REFLOW_PHASE_PREHEAT \<and>
   ovenStatus (run example_platform start_trace power_on) = OVEN_OFF"
  using example_reachable [of start_trace] by (simp add: start_state)

text \<open>
  C2, amended. In every reachable state \<open>ovenStatus = OVEN_ON\<close> only if the phase is
  Preheat, Soak, Reflow or Peak (so never in Idle, Complete, TooHot, Error or Cool), and
  the phases Soak, Reflow and Peak always have \<open>ovenStatus = OVEN_ON\<close>. Preheat with
  \<open>ovenStatus = OVEN_OFF\<close> occurs at the end of a pass only when that pass began in Idle
  with a validated press pending, that is, in the pass that starts the process.
\<close>

theorem status_phase_agreement:
  "reachable pf s \<Longrightarrow>
     (ovenStatus s = OVEN_ON \<longrightarrow> heating (reflowPhase s)) \<and>
     (reflowPhase s = REFLOW_PHASE_SOAK \<or> reflowPhase s = REFLOW_PHASE_REFLOW \<or>
      reflowPhase s = REFLOW_PHASE_PEAK \<longrightarrow> ovenStatus s = OVEN_ON) \<and>
     (reflowPhase (loop pf inp s) = REFLOW_PHASE_PREHEAT \<and>
      ovenStatus (loop pf inp s) = OVEN_OFF
      \<longrightarrow> reflowPhase s = REFLOW_PHASE_IDLE \<and> buttonStatus s = BUTTON_1)"
  using reachable_agree [of pf s] loop_preheat_off [of pf inp s] by blast

text \<open>
  The amended statement at three states of the example run: Soak with the status on,
  the status on in a heating phase, and the starting pass out of Idle.
\<close>

theorem status_phase_agreement_witness:
  "reachable example_platform (run example_platform soak_trace power_on) \<and>
   reflowPhase (run example_platform soak_trace power_on) = REFLOW_PHASE_SOAK \<and>
   ovenStatus (run example_platform soak_trace power_on) = OVEN_ON \<and>
   heating (reflowPhase (run example_platform soak_trace power_on)) \<and>
   reachable example_platform (run example_platform press_trace power_on) \<and>
   reflowPhase (loop example_platform (pass 53 20 1)
     (run example_platform press_trace power_on)) = REFLOW_PHASE_PREHEAT \<and>
   ovenStatus (loop example_platform (pass 53 20 1)
     (run example_platform press_trace power_on)) = OVEN_OFF \<and>
   reflowPhase (run example_platform press_trace power_on) = REFLOW_PHASE_IDLE \<and>
   buttonStatus (run example_platform press_trace power_on) = BUTTON_1"
proof -
  let ?k = "run example_platform soak_trace power_on"
  let ?s = "run example_platform press_trace power_on"
  have rk: "reachable example_platform ?k" and rs: "reachable example_platform ?s"
    by (rule example_reachable)+
  have k: "reflowPhase ?k = REFLOW_PHASE_SOAK"
    by (simp add: soak_state)
  have p: "reflowPhase (loop example_platform (pass 53 20 1) ?s) = REFLOW_PHASE_PREHEAT"
    and q: "ovenStatus (loop example_platform (pass 53 20 1) ?s) = OVEN_OFF"
    by (simp_all add: press_state eval_defs)
  show ?thesis
    using rk rs k p q
      status_phase_agreement [OF rk, of "pass 53 20 1"]
      status_phase_agreement [OF rs, of "pass 53 20 1"]
    by blast
qed

section \<open>Sensor faults\<close>

text \<open>
  C3. A pass whose sample is one of the three fault codes has phase Error and oven
  status off already after the sampling step, that is, before the phase switch runs,
  whatever the phase was; at the end of that pass the phase is Error, the oven status is
  off and the SSR pin is low. From Error, one pass that samples a value that is not a
  fault code ends in Idle.
\<close>

theorem fault_forces_error:
  "(faultSampled pf inp s \<longrightarrow>
      reflowPhase (sampleStep pf inp s) = REFLOW_PHASE_ERROR \<and>
      ovenStatus (sampleStep pf inp s) = OVEN_OFF \<and>
      reflowPhase (loop pf inp s) = REFLOW_PHASE_ERROR \<and>
      ovenStatus (loop pf inp s) = OVEN_OFF \<and>
      \<not> ssrPin (loop pf inp s)) \<and>
   (reflowPhase s = REFLOW_PHASE_ERROR \<and> millisRead inp > nextRead s \<and>
    \<not> thermocoupleFault pf (readThermocouple inp)
      \<longrightarrow> reflowPhase (loop pf inp s) = REFLOW_PHASE_IDLE)"
proof (rule conjI; rule impI)
  assume f: "faultSampled pf inp s"
  have off: "ovenStatus (loop pf inp s) = OVEN_OFF"
    using f by (rule loop_fault)
  then have "\<not> ssrPin (loop pf inp s)"
    by (rule loop_ssr_guard)
  with f off show "reflowPhase (sampleStep pf inp s) = REFLOW_PHASE_ERROR \<and>
      ovenStatus (sampleStep pf inp s) = OVEN_OFF \<and>
      reflowPhase (loop pf inp s) = REFLOW_PHASE_ERROR \<and>
      ovenStatus (loop pf inp s) = OVEN_OFF \<and>
      \<not> ssrPin (loop pf inp s)"
    by (simp add: sampleStep_phase sampleStep_status loop_fault)
next
  assume a: "reflowPhase s = REFLOW_PHASE_ERROR \<and> millisRead inp > nextRead s \<and>
    \<not> thermocoupleFault pf (readThermocouple inp)"
  then have "\<not> faultSampled pf inp s"
    by (simp add: faultSampled_def)
  with a show "reflowPhase (loop pf inp s) = REFLOW_PHASE_IDLE"
    by (simp add: loop_phase control_def reflowSwitch_def cancelStep_def Let_def
          sampleStep_phase sampleStep_temp)
qed

text \<open>
  In Preheat with the heater on, the sample at 300 ms is a fault code: Error, heater off.
  The sample at 500 ms is 25 degrees: Idle.
\<close>

theorem fault_forces_error_witness:
  "faultSampled example_platform (pass 300 10001 1) (run example_platform heat_trace power_on) \<and>
   ssrPin (run example_platform heat_trace power_on) \<and>
   reflowPhase (loop example_platform (pass 300 10001 1)
     (run example_platform heat_trace power_on)) = REFLOW_PHASE_ERROR \<and>
   \<not> ssrPin (loop example_platform (pass 300 10001 1)
     (run example_platform heat_trace power_on)) \<and>
   reflowPhase (loop example_platform (pass 500 25 1)
     (loop example_platform (pass 300 10001 1) (run example_platform heat_trace power_on)))
     = REFLOW_PHASE_IDLE"
proof -
  let ?s = "run example_platform heat_trace power_on"
  let ?e = "loop example_platform (pass 300 10001 1) ?s"
  have f: "faultSampled example_platform (pass 300 10001 1) ?s" and on: "ssrPin ?s"
    by (simp_all add: heat_state eval_defs)
  have g: "reflowPhase ?e = REFLOW_PHASE_ERROR \<and> millisRead (pass 500 25 1) > nextRead ?e \<and>
      \<not> thermocoupleFault example_platform (readThermocouple (pass 500 25 1))"
    by (simp add: heat_state eval_defs)
  show ?thesis
    using f on g
      fault_forces_error [of example_platform "pass 300 10001 1" ?s]
      fault_forces_error [of example_platform "pass 500 25 1" ?e]
    by blast
qed

section \<open>Cancelling with the button\<close>







section \<open>The ramp rule of Preheat and Reflow\<close>

text \<open>
  C5, as stated, fails. First, the rule of the phase switch is not the last word on the
  heater: when a validated press is pending, the cancel branch (lines 435-446) writes the
  pin low after the Preheat case has written it high. In the example the press is pending
  in Preheat, the sample at 1053 ms is 22 degrees, a rise of 2 degrees in 1000 ms, so the
  exit threshold is not reached and the condition of the claim holds; the pass ends with
  the heater off. Second, the test of lines 301 and 347 is computed with the rounded
  floating-point operations of the target, not with the exact quotient and product of
  the claim.
\<close>

theorem ramp_rule_counterexample:
  "reachable example_platform (run example_platform preheat_press_trace power_on) \<and>
   reflowPhase (run example_platform preheat_press_trace power_on) = REFLOW_PHASE_PREHEAT \<and>
   temp (loop example_platform (pass 1053 22 1)
     (run example_platform preheat_press_trace power_on)) < SOAK_TEMPERATURE \<and>
   temp (loop example_platform (pass 1053 22 1)
     (run example_platform preheat_press_trace power_on))
     - phaseStartTemp (run example_platform preheat_press_trace power_on)
     < real (unat (millisPhase (pass 1053 22 1)
         - phaseStartTime (run example_platform preheat_press_trace power_on))) / 1000 * RAMPUP \<and>
   \<not> ssrPin (loop example_platform (pass 1053 22 1)
     (run example_platform preheat_press_trace power_on))"
  using example_reachable [of preheat_press_trace]
  by (simp add: preheat_press_state sampleStep_temp eval_defs)

text \<open>
  C5, amended. Take a pass that begins in Preheat (or in Reflow) with the temperature in
  force below the exit threshold of the phase, \<open>SOAK_TEMPERATURE\<close> (or
  \<open>PEAK_TEMPERATURE\<close>), in which no sensor fault is sampled and no validated press is
  pending. The phase does not change, and at the end of the pass the SSR pin is high
  exactly when the test of the code holds: the rounded difference of the temperature in
  force and \<open>phaseStartTemp\<close> is strictly less than the rounded quotient by 1000 of
  the rounded product of \<open>RAMPUP\<close> (which is 3) and the elapsed milliseconds
  converted to \<open>float\<close>, the elapsed time being the 32-bit difference
  \<open>millis() - phaseStartTime\<close>. When the two computed values are equal the pin is low:
  a plain threshold without a hysteresis band, the same in both phases.
\<close>

theorem ramp_limited_heating:
  assumes "reflowPhase s = REFLOW_PHASE_PREHEAT \<and> temp (loop pf inp s) < SOAK_TEMPERATURE \<or>
           reflowPhase s = REFLOW_PHASE_REFLOW \<and> temp (loop pf inp s) < PEAK_TEMPERATURE"
    and "\<not> faultSampled pf inp s" and "buttonStatus s \<noteq> BUTTON_1"
  shows "RAMPUP = 3 \<and>
     reflowPhase (loop pf inp s) = reflowPhase s \<and>
     (ssrPin (loop pf inp s) \<longleftrightarrow>
        doubleSub pf (temp (loop pf inp s)) (phaseStartTemp s)
          < doubleDiv pf
              (doubleMul pf (floatOfULong pf (millisPhase inp - phaseStartTime s)) RAMPUP)
              1000) \<and>
     (doubleSub pf (temp (loop pf inp s)) (phaseStartTemp s)
          = doubleDiv pf
              (doubleMul pf (floatOfULong pf (millisPhase inp - phaseStartTime s)) RAMPUP)
              1000
        \<longrightarrow> \<not> ssrPin (loop pf inp s))"
proof -
  from assms(1) have
    "reflowPhase s = REFLOW_PHASE_PREHEAT \<and> temp (sampleStep pf inp s) < SOAK_TEMPERATURE \<or>
     reflowPhase s = REFLOW_PHASE_REFLOW \<and> temp (sampleStep pf inp s) < PEAK_TEMPERATURE"
    by simp
  then show ?thesis
  proof
    assume "reflowPhase s = REFLOW_PHASE_PREHEAT \<and> temp (sampleStep pf inp s) < SOAK_TEMPERATURE"
    with assms(2,3) show ?thesis
      by (simp add: loop_table reflowSwitch_def Let_def sampleStep_phase sampleStep_status
            ssrGuard_ssr rampAllows_def RAMPUP_def)
  next
    assume "reflowPhase s = REFLOW_PHASE_REFLOW \<and> temp (sampleStep pf inp s) < PEAK_TEMPERATURE"
    with assms(2,3) show ?thesis
      by (simp add: loop_table reflowSwitch_def Let_def sampleStep_phase sampleStep_status
            ssrGuard_ssr rampAllows_def RAMPUP_def)
  qed
qed

text \<open>
  Preheat began at 53 ms and 20 degrees with the heater on. At 1053 ms a sample of 23
  degrees is a rise of exactly 3 degrees in one second: the heater goes off. A sample of
  22 degrees keeps it on. Reflow began at 90301 ms and 150 degrees: 153 degrees at
  91301 ms switches the heater off as well.
\<close>

theorem ramp_limited_heating_witness:
  "reflowPhase (run example_platform heat_trace power_on) = REFLOW_PHASE_PREHEAT \<and>
   ssrPin (run example_platform heat_trace power_on) \<and>
   temp (loop example_platform (pass 1053 23 1) (run example_platform heat_trace power_on))
     = 23 \<and>
   \<not> ssrPin (loop example_platform (pass 1053 23 1)
     (run example_platform heat_trace power_on)) \<and>
   ssrPin (loop example_platform (pass 1053 22 1)
     (run example_platform heat_trace power_on)) \<and>
   reflowPhase (run example_platform reflow_trace power_on) = REFLOW_PHASE_REFLOW \<and>
   \<not> ssrPin (loop example_platform (pass 91301 153 1)
     (run example_platform reflow_trace power_on))"
proof -
  let ?h = "run example_platform heat_trace power_on"
  let ?r = "run example_platform reflow_trace power_on"
  let ?ramp = "\<lambda>i s. doubleDiv example_platform
      (doubleMul example_platform
        (floatOfULong example_platform (millisPhase i - phaseStartTime s)) RAMPUP) 1000"
  have h1: "reflowPhase ?h = REFLOW_PHASE_PREHEAT \<and>
        temp (loop example_platform (pass 1053 23 1) ?h) < SOAK_TEMPERATURE \<or>
      reflowPhase ?h = REFLOW_PHASE_REFLOW \<and>
        temp (loop example_platform (pass 1053 23 1) ?h) < PEAK_TEMPERATURE"
    and h2: "\<not> faultSampled example_platform (pass 1053 23 1) ?h"
    and h3: "buttonStatus ?h \<noteq> BUTTON_1"
    and h4: "doubleSub example_platform
        (temp (loop example_platform (pass 1053 23 1) ?h)) (phaseStartTemp ?h)
      = ?ramp (pass 1053 23 1) ?h"
    and h5: "temp (loop example_platform (pass 1053 23 1) ?h) = 23"
    and h6: "reflowPhase ?h = REFLOW_PHASE_PREHEAT" "ssrPin ?h"
    by (simp_all add: heat_state sampleStep_temp eval_defs)
  have k1: "reflowPhase ?h = REFLOW_PHASE_PREHEAT \<and>
        temp (loop example_platform (pass 1053 22 1) ?h) < SOAK_TEMPERATURE \<or>
      reflowPhase ?h = REFLOW_PHASE_REFLOW \<and>
        temp (loop example_platform (pass 1053 22 1) ?h) < PEAK_TEMPERATURE"
    and k2: "\<not> faultSampled example_platform (pass 1053 22 1) ?h"
    and k4: "doubleSub example_platform
        (temp (loop example_platform (pass 1053 22 1) ?h)) (phaseStartTemp ?h)
      < ?ramp (pass 1053 22 1) ?h"
    by (simp_all add: heat_state sampleStep_temp eval_defs)
  have r1: "reflowPhase ?r = REFLOW_PHASE_PREHEAT \<and>
        temp (loop example_platform (pass 91301 153 1) ?r) < SOAK_TEMPERATURE \<or>
      reflowPhase ?r = REFLOW_PHASE_REFLOW \<and>
        temp (loop example_platform (pass 91301 153 1) ?r) < PEAK_TEMPERATURE"
    and r2: "\<not> faultSampled example_platform (pass 91301 153 1) ?r"
    and r3: "buttonStatus ?r \<noteq> BUTTON_1"
    and r4: "doubleSub example_platform
        (temp (loop example_platform (pass 91301 153 1) ?r)) (phaseStartTemp ?r)
      = ?ramp (pass 91301 153 1) ?r"
    and r6: "reflowPhase ?r = REFLOW_PHASE_REFLOW"
    by (simp_all add: reflow_state sampleStep_temp eval_defs)
  show ?thesis
    using h4 h5 h6 k4 r4 r6
      ramp_limited_heating [OF h1 h2 h3]
      ramp_limited_heating [OF k1 k2 h3]
      ramp_limited_heating [OF r1 r2 r3]
    by blast
qed

section \<open>Soak\<close>

text \<open>
  C6, as stated, fails in three ways. With a validated press pending, a pass well
  before the end of the soak period ends in Idle with the heater off although the
  temperature is below \<open>SOAK_TEMPERATURE\<close>: the cancel branch comes after the Soak
  case. A sensor fault sampled before the end of the period ends the pass in Error. And
  the deadline of line 316 is the wrapping 32-bit sum \<open>phaseStartTime + SOAK_PERIOD\<close>:
  Soak entered at 4294900000 ms has the deadline 22704, and the pass 100 ms later already
  moves to Reflow.
\<close>

theorem soak_deadline_counterexample:
  "reachable example_platform (run example_platform soak_press_trace power_on) \<and>
   reflowPhase (run example_platform soak_press_trace power_on) = REFLOW_PHASE_SOAK \<and>
   millisPhase (pass 1300 149 1)
     \<le> phaseStartTime (run example_platform soak_press_trace power_on) + SOAK_PERIOD \<and>
   temp (loop example_platform (pass 1300 149 1)
     (run example_platform soak_press_trace power_on)) < SOAK_TEMPERATURE \<and>
   reflowPhase (loop example_platform (pass 1300 149 1)
     (run example_platform soak_press_trace power_on)) = REFLOW_PHASE_IDLE \<and>
   \<not> ssrPin (loop example_platform (pass 1300 149 1)
     (run example_platform soak_press_trace power_on)) \<and>
   reachable example_platform (run example_platform soak_trace power_on) \<and>
   reflowPhase (run example_platform soak_trace power_on) = REFLOW_PHASE_SOAK \<and>
   millisPhase (pass 1000 10001 1)
     \<le> phaseStartTime (run example_platform soak_trace power_on) + SOAK_PERIOD \<and>
   reflowPhase (loop example_platform (pass 1000 10001 1)
     (run example_platform soak_trace power_on)) = REFLOW_PHASE_ERROR \<and>
   reachable example_platform (run example_platform late_soak_trace power_on) \<and>
   reflowPhase (run example_platform late_soak_trace power_on) = REFLOW_PHASE_SOAK \<and>
   unat (phaseStartTime (run example_platform late_soak_trace power_on)) = 4294900000 \<and>
   unat (millisPhase (pass 4294900100 149 1)) = 4294900100 \<and>
   reflowPhase (loop example_platform (pass 4294900100 149 1)
     (run example_platform late_soak_trace power_on)) = REFLOW_PHASE_REFLOW"
  using example_reachable [of soak_press_trace] example_reachable [of soak_trace]
    example_reachable [of late_soak_trace]
  by (simp add: soak_press_state soak_state late_soak_state sampleStep_temp eval_defs)

text \<open>
  C6, amended. Take a pass that begins in Soak, samples no sensor fault and has no
  validated press pending, with a phase start time that leaves room for the soak period
  before the 32-bit clock wraps. If the clock read at line 316 is at most
  \<open>phaseStartTime + 90000\<close> ms, the pass ends in Soak with the phase context unchanged
  and the SSR pin high exactly when the temperature in force is below
  \<open>SOAK_TEMPERATURE\<close> (150). The pass ends in Reflow exactly when that clock reading
  is strictly greater than \<open>phaseStartTime + 90000\<close>, and then the phase context is
  captured again: the start time is the clock read at line 318, the start temperature is
  the temperature in force. Clock readings are compared as numbers of milliseconds.
\<close>

theorem soak_hold_and_exit:
  assumes "reflowPhase s = REFLOW_PHASE_SOAK"
    and "\<not> faultSampled pf inp s" and "buttonStatus s \<noteq> BUTTON_1"
    and "unat (phaseStartTime s) + 90000 < 2 ^ 32"
  shows "SOAK_PERIOD = 90000 \<and> SOAK_TEMPERATURE = 150 \<and>
     (unat (millisPhase inp) \<le> unat (phaseStartTime s) + 90000 \<longrightarrow>
        reflowPhase (loop pf inp s) = REFLOW_PHASE_SOAK \<and>
        (ssrPin (loop pf inp s) \<longleftrightarrow> temp (loop pf inp s) < SOAK_TEMPERATURE) \<and>
        phaseStartTime (loop pf inp s) = phaseStartTime s \<and>
        phaseStartTemp (loop pf inp s) = phaseStartTemp s) \<and>
     (reflowPhase (loop pf inp s) = REFLOW_PHASE_REFLOW \<longleftrightarrow>
        unat (millisPhase inp) > unat (phaseStartTime s) + 90000) \<and>
     (reflowPhase (loop pf inp s) = REFLOW_PHASE_REFLOW \<longrightarrow>
        phaseStartTime (loop pf inp s) = millisPhase2 inp \<and>
        phaseStartTemp (loop pf inp s) = temp (loop pf inp s))"
proof -
  have d: "unat (90000 :: ulong) = 90000"
    by simp
  from assms(4) have room: "unat (phaseStartTime s) + unat (90000 :: ulong) < 2 ^ 32"
    by (simp only: d)
  note cmp = deadline_no_wrap [OF room, unfolded d]
  have "millisPhase inp > phaseStartTime s + 90000 \<or> millisPhase inp \<le> phaseStartTime s + 90000"
    by auto
  then show ?thesis
  proof
    assume late: "millisPhase inp > phaseStartTime s + 90000"
    then have "unat (millisPhase inp) > unat (phaseStartTime s) + 90000"
      by (simp only: cmp)
    with late assms(1-3) show ?thesis
      by (simp add: loop_table reflowSwitch_def Let_def sampleStep_phase sampleStep_status
            ssrGuard_ssr SOAK_PERIOD_def SOAK_TEMPERATURE_def)
  next
    assume early: "millisPhase inp \<le> phaseStartTime s + 90000"
    then have "unat (millisPhase inp) \<le> unat (phaseStartTime s) + 90000"
      by (simp only: cmp)
    moreover from early have "\<not> millisPhase inp > phaseStartTime s + 90000"
      by (simp add: not_less)
    ultimately show ?thesis
      using assms(1-3)
      by (simp add: loop_table reflowSwitch_def Let_def sampleStep_phase sampleStep_status
            ssrGuard_ssr SOAK_PERIOD_def SOAK_TEMPERATURE_def not_less)
  qed
qed

text \<open>
  Soak began at 300 ms. At 90300 ms and 149 degrees the pass stays in Soak with the heater
  on; at 90301 ms it moves to Reflow and captures 90301 ms and 149 degrees.
\<close>

theorem soak_hold_and_exit_witness:
  "reflowPhase (run example_platform soak_trace power_on) = REFLOW_PHASE_SOAK \<and>
   phaseStartTime (run example_platform soak_trace power_on) = 300 \<and>
   reflowPhase (loop example_platform (pass 90300 149 1)
     (run example_platform soak_trace power_on)) = REFLOW_PHASE_SOAK \<and>
   ssrPin (loop example_platform (pass 90300 149 1)
     (run example_platform soak_trace power_on)) \<and>
   reflowPhase (loop example_platform (pass 90301 149 1)
     (run example_platform soak_trace power_on)) = REFLOW_PHASE_REFLOW \<and>
   phaseStartTime (loop example_platform (pass 90301 149 1)
     (run example_platform soak_trace power_on)) = 90301 \<and>
   phaseStartTemp (loop example_platform (pass 90301 149 1)
     (run example_platform soak_trace power_on)) = 149"
proof -
  let ?s = "run example_platform soak_trace power_on"
  have h1: "reflowPhase ?s = REFLOW_PHASE_SOAK"
    and h3: "buttonStatus ?s \<noteq> BUTTON_1"
    and h0: "phaseStartTime ?s = 300"
    and hr: "unat (phaseStartTime ?s) + 90000 < 2 ^ 32"
    by (simp_all add: soak_state)
  have a2: "\<not> faultSampled example_platform (pass 90300 149 1) ?s"
    and a4: "unat (millisPhase (pass 90300 149 1)) \<le> unat (phaseStartTime ?s) + 90000"
    and a5: "temp (loop example_platform (pass 90300 149 1) ?s) < SOAK_TEMPERATURE"
    by (simp_all add: soak_state sampleStep_temp eval_defs)
  have b2: "\<not> faultSampled example_platform (pass 90301 149 1) ?s"
    and b4: "unat (millisPhase (pass 90301 149 1)) > unat (phaseStartTime ?s) + 90000"
    and b5: "temp (loop example_platform (pass 90301 149 1) ?s) = 149"
    and b6: "millisPhase2 (pass 90301 149 1) = 90301"
    by (simp_all add: soak_state sampleStep_temp eval_defs)
  show ?thesis
    using h0 h1 a4 a5 b4 b5 b6
      soak_hold_and_exit [OF h1 a2 h3 hr]
      soak_hold_and_exit [OF h1 b2 h3 hr]
    by metis
qed

section \<open>Completion and the buzzer\<close>

lemma complete_step:
  assumes "reflowPhase s = REFLOW_PHASE_COMPLETE"
    and "\<not> thermocoupleFault pf (readThermocouple i)"
  shows "millisPhase i \<le> buzzerPeriod s \<Longrightarrow>
           reflowPhase (loop pf i s) = REFLOW_PHASE_COMPLETE \<and>
           buzzerPin (loop pf i s) = buzzerPin s \<and>
           buzzerPeriod (loop pf i s) = buzzerPeriod s"
    and "millisPhase i > buzzerPeriod s \<Longrightarrow>
           reflowPhase (loop pf i s) = REFLOW_PHASE_IDLE \<and> \<not> buzzerPin (loop pf i s)"
  using assms
  by (simp_all add: loop_def reflowSwitch_def cancelStep_def Let_def sampleStep_phase
        faultSampled_def not_less not_le)

lemma complete_hold:
  assumes "reflowPhase s = REFLOW_PHASE_COMPLETE"
    and "\<forall>i\<in>set holds. \<not> thermocoupleFault pf (readThermocouple i) \<and>
           millisPhase i \<le> buzzerPeriod s"
  shows "reflowPhase (run pf holds s) = REFLOW_PHASE_COMPLETE \<and>
         buzzerPin (run pf holds s) = buzzerPin s \<and>
         buzzerPeriod (run pf holds s) = buzzerPeriod s"
  using assms
proof (induction holds arbitrary: s)
  case Nil
  then show ?case by simp
next
  case (Cons i holds)
  from Cons.prems have st:
    "reflowPhase (loop pf i s) = REFLOW_PHASE_COMPLETE \<and>
     buzzerPin (loop pf i s) = buzzerPin s \<and>
     buzzerPeriod (loop pf i s) = buzzerPeriod s"
    by (intro complete_step(1)) simp_all
  with Cons.prems have
    "reflowPhase (run pf holds (loop pf i s)) = REFLOW_PHASE_COMPLETE \<and>
     buzzerPin (run pf holds (loop pf i s)) = buzzerPin (loop pf i s) \<and>
     buzzerPeriod (run pf holds (loop pf i s)) = buzzerPeriod (loop pf i s)"
    by (intro Cons.IH) simp_all
  with st show ?case by simp
qed

lemma cool_entry:
  assumes "reflowPhase s = REFLOW_PHASE_COOL" and "\<not> faultSampled pf e s"
    and "temp (loop pf e s) \<le> COOL_TEMPERATURE"
  shows "reflowPhase (loop pf e s) = REFLOW_PHASE_COMPLETE \<and>
         buzzerPin (loop pf e s) \<and>
         buzzerPeriod (loop pf e s) = millisPhase e + 1000"
proof -
  from assms(3) have "temp (sampleStep pf e s) \<le> COOL_TEMPERATURE"
    by simp
  with assms(1,2) show ?thesis
    by (simp add: loop_def reflowSwitch_def cancelStep_def Let_def sampleStep_phase)
qed

text \<open>
  C7, as stated, fails in two ways. A sensor fault sampled while the buzzer sounds moves
  the phase to Error, and line 401, the only place where the loop switches the buzzer
  off, is not reached any more: in the example the fault comes 500 ms after entry, the
  next sample is good, and 2000 ms after entry the phase is Idle with the buzzer still
  on. And the deadline of line 388 is the wrapping 32-bit sum \<open>millis() + 1000\<close>:
  Complete entered at 4294966796 ms has the deadline 500, and the pass one millisecond
  later switches the buzzer off.
\<close>

theorem buzzer_one_second_counterexample:
  "reachable example_platform (run example_platform complete_trace power_on) \<and>
   reflowPhase (run example_platform complete_trace power_on) = REFLOW_PHASE_COMPLETE \<and>
   buzzerPin (run example_platform complete_trace power_on) \<and>
   buzzerPeriod (run example_platform complete_trace power_on) = 201000 \<and>
   reflowPhase (run example_platform [pass 200500 10001 1, pass 202000 90 1]
     (run example_platform complete_trace power_on)) = REFLOW_PHASE_IDLE \<and>
   buzzerPin (run example_platform [pass 200500 10001 1, pass 202000 90 1]
     (run example_platform complete_trace power_on)) \<and>
   reachable example_platform (run example_platform late_complete_trace power_on) \<and>
   reflowPhase (run example_platform late_complete_trace power_on) = REFLOW_PHASE_COMPLETE \<and>
   buzzerPin (run example_platform late_complete_trace power_on) \<and>
   buzzerPeriod (run example_platform late_complete_trace power_on) = 500 \<and>
   reflowPhase (loop example_platform (pass 4294966797 90 1)
     (run example_platform late_complete_trace power_on)) = REFLOW_PHASE_IDLE \<and>
   \<not> buzzerPin (loop example_platform (pass 4294966797 90 1)
     (run example_platform late_complete_trace power_on))"
  using example_reachable [of complete_trace] example_reachable [of late_complete_trace]
  by (simp add: complete_state late_complete_state eval_defs)

text \<open>
  C7, amended. Let a pass \<open>e\<close> begin in Cool with the temperature in force at most
  \<open>COOL_TEMPERATURE\<close> (100) and no sensor fault sampled, at a clock reading that
  leaves room for 1000 ms before the 32-bit clock wraps. It ends in Complete with the
  buzzer on and the deadline \<open>buzzerPeriod\<close> equal to the clock read in that pass plus
  1000 ms. After any further passes \<open>holds\<close> whose clock readings are at most that
  deadline and in which the thermocouple reports no fault code, the phase is still
  Complete and the buzzer still on; since every prefix of \<open>holds\<close> satisfies the same
  condition, this holds after each of those passes. The first pass \<open>x\<close> whose clock
  reading exceeds the deadline, again without a fault code, ends in Idle with the buzzer
  off. Clock readings are compared as numbers of milliseconds. Nothing is said about a
  pass in Complete that samples a sensor fault.
\<close>

theorem buzzer_on_completion:
  assumes "reflowPhase s = REFLOW_PHASE_COOL" and "\<not> faultSampled pf e s"
    and "temp (loop pf e s) \<le> COOL_TEMPERATURE"
    and "unat (millisPhase e) + 1000 < 2 ^ 32"
    and "\<forall>i\<in>set holds. \<not> thermocoupleFault pf (readThermocouple i) \<and>
           unat (millisPhase i) \<le> unat (millisPhase e) + 1000"
    and "\<not> thermocoupleFault pf (readThermocouple x)"
    and "unat (millisPhase x) > unat (millisPhase e) + 1000"
  shows "COOL_TEMPERATURE = 100 \<and>
     reflowPhase (loop pf e s) = REFLOW_PHASE_COMPLETE \<and>
     buzzerPin (loop pf e s) \<and>
     unat (buzzerPeriod (loop pf e s)) = unat (millisPhase e) + 1000 \<and>
     reflowPhase (run pf holds (loop pf e s)) = REFLOW_PHASE_COMPLETE \<and>
     buzzerPin (run pf holds (loop pf e s)) \<and>
     reflowPhase (loop pf x (run pf holds (loop pf e s))) = REFLOW_PHASE_IDLE \<and>
     \<not> buzzerPin (loop pf x (run pf holds (loop pf e s)))"
proof -
  have d: "unat (1000 :: ulong) = 1000"
    by simp
  from assms(4) have room: "unat (millisPhase e) + unat (1000 :: ulong) < 2 ^ 32"
    by (simp only: d)
  note cmp = deadline_no_wrap [OF room, unfolded d]
  from room have sum: "unat (millisPhase e + 1000) = unat (millisPhase e) + 1000"
    by (simp add: unat_add_lem [THEN iffD1])
  from assms(5) have within:
    "\<forall>i\<in>set holds. \<not> thermocoupleFault pf (readThermocouple i) \<and>
       millisPhase i \<le> millisPhase e + 1000"
    by (simp only: cmp)
  from assms(7) have beyond: "millisPhase x > millisPhase e + 1000"
    by (simp only: cmp)
  note en = cool_entry [OF assms(1-3)]
  from en within have hold:
    "reflowPhase (run pf holds (loop pf e s)) = REFLOW_PHASE_COMPLETE \<and>
     buzzerPin (run pf holds (loop pf e s)) = buzzerPin (loop pf e s) \<and>
     buzzerPeriod (run pf holds (loop pf e s)) = buzzerPeriod (loop pf e s)"
    by (intro complete_hold) simp_all
  with en beyond have "millisPhase x > buzzerPeriod (run pf holds (loop pf e s))"
    by simp
  with hold assms(6) have
    "reflowPhase (loop pf x (run pf holds (loop pf e s))) = REFLOW_PHASE_IDLE \<and>
     \<not> buzzerPin (loop pf x (run pf holds (loop pf e s)))"
    by (intro complete_step(2)) simp_all
  with en hold sum show ?thesis by (simp add: COOL_TEMPERATURE_def)
qed

text \<open>
  From the Cool state of the example run: 100 degrees are sampled at 200000 ms, passes
  follow at 200500 ms and 201000 ms, and the pass at 201001 ms ends the buzzer.
\<close>

theorem buzzer_on_completion_witness:
  "reflowPhase (run example_platform cool_trace power_on) = REFLOW_PHASE_COOL \<and>
   temp (loop example_platform (pass 200000 100 1) (run example_platform cool_trace power_on))
     \<le> COOL_TEMPERATURE \<and>
   unat (millisPhase (pass 200000 100 1)) = 200000 \<and>
   unat (millisPhase (pass 200500 90 1)) = 200500 \<and>
   unat (millisPhase (pass 201000 90 1)) = 201000 \<and>
   unat (millisPhase (pass 201001 90 1)) = 201001 \<and>
   buzzerPin (run example_platform [pass 200500 90 1, pass 201000 90 1]
     (loop example_platform (pass 200000 100 1) (run example_platform cool_trace power_on))) \<and>
   reflowPhase (loop example_platform (pass 201001 90 1)
     (run example_platform [pass 200500 90 1, pass 201000 90 1]
       (loop example_platform (pass 200000 100 1) (run example_platform cool_trace power_on))))
     = REFLOW_PHASE_IDLE \<and>
   \<not> buzzerPin (loop example_platform (pass 201001 90 1)
     (run example_platform [pass 200500 90 1, pass 201000 90 1]
       (loop example_platform (pass 200000 100 1) (run example_platform cool_trace power_on))))"
proof -
  let ?c = "run example_platform cool_trace power_on"
  have h1: "reflowPhase ?c = REFLOW_PHASE_COOL"
    and h2: "\<not> faultSampled example_platform (pass 200000 100 1) ?c"
    and h3: "temp (loop example_platform (pass 200000 100 1) ?c) \<le> COOL_TEMPERATURE"
    by (simp_all add: cool_state sampleStep_temp eval_defs)
  have hr: "unat (millisPhase (pass 200000 100 1)) + 1000 < 2 ^ 32"
    and h4: "\<forall>i\<in>set [pass 200500 90 1, pass 201000 90 1].
      \<not> thermocoupleFault example_platform (readThermocouple i) \<and>
      unat (millisPhase i) \<le> unat (millisPhase (pass 200000 100 1)) + 1000"
    and h5: "\<not> thermocoupleFault example_platform (readThermocouple (pass 201001 90 1))"
    and h6: "unat (millisPhase (pass 201001 90 1)) > unat (millisPhase (pass 200000 100 1)) + 1000"
    and h8: "unat (millisPhase (pass 200000 100 1)) = 200000"
      "unat (millisPhase (pass 200500 90 1)) = 200500"
      "unat (millisPhase (pass 201000 90 1)) = 201000"
      "unat (millisPhase (pass 201001 90 1)) = 201001"
    by (simp_all add: pass_def thermocoupleFault_def)
  note w = buzzer_on_completion [OF h1 h2 h3 hr h4 h5 h6]
  from w h1 h3 h8 show ?thesis by blast
qed

section \<open>Debouncing the button\<close>

text \<open>
  The debounce switch reads and writes only \<open>debounceState\<close>, \<open>lastDebounceTime\<close>
  and \<open>buttonStatus\<close>, and no other step of the loop writes them.
\<close>

lemma debounceSwitch_cong:
  assumes "debounceState a = debounceState b"
    and "lastDebounceTime a = lastDebounceTime b"
    and "buttonStatus a = buttonStatus b"
  shows "debounceState (debounceSwitch inp a) = debounceState (debounceSwitch inp b)"
    and "lastDebounceTime (debounceSwitch inp a) = lastDebounceTime (debounceSwitch inp b)"
    and "buttonStatus (debounceSwitch inp a) = buttonStatus (debounceSwitch inp b)"
  using assms
  by (cases "debounceState b"; simp add: debounceSwitch_def Let_def)+

lemma loop_debounce:
  "debounceState (loop pf inp s) = debounceState (debounceSwitch inp s)"
  "lastDebounceTime (loop pf inp s) = lastDebounceTime (debounceSwitch inp s)"
  "buttonStatus (loop pf inp s) = buttonStatus (debounceSwitch inp s)"
  unfolding loop_def ssrGuard_frame
  by (rule debounceSwitch_cong; simp)+

lemma loop_debounce_idle:
  assumes "debounceState s = DEBOUNCE_STATE_IDLE"
  shows "buttonStatus (loop pf inp s) = BUTTON_NONE"
    and "analogRead inp = 0 \<Longrightarrow> debounceState (loop pf inp s) = DEBOUNCE_STATE_CHECK \<and>
           lastDebounceTime (loop pf inp s) = millisDebounce inp"
    and "analogRead inp > 0 \<Longrightarrow> debounceState (loop pf inp s) = DEBOUNCE_STATE_IDLE"
  using assms by (simp_all add: loop_debounce debounceSwitch_def Let_def)

lemma loop_debounce_check:
  assumes "debounceState s = DEBOUNCE_STATE_CHECK"
  shows "buttonStatus (loop pf inp s) = buttonStatus s"
    and "lastDebounceTime (loop pf inp s) = lastDebounceTime s"
    and "analogRead inp = 0 \<Longrightarrow> debounceState (loop pf inp s) =
           (if millisDebounce inp - lastDebounceTime s > DEBOUNCE_PERIOD_MIN
            then DEBOUNCE_STATE_RELEASE else DEBOUNCE_STATE_CHECK)"
    and "analogRead inp > 0 \<Longrightarrow> debounceState (loop pf inp s) = DEBOUNCE_STATE_IDLE"
  using assms by (simp_all add: loop_debounce debounceSwitch_def Let_def)

lemma loop_debounce_release:
  assumes "debounceState s = DEBOUNCE_STATE_RELEASE"
  shows "analogRead inp = 0 \<Longrightarrow> debounceState (loop pf inp s) = DEBOUNCE_STATE_RELEASE \<and>
           buttonStatus (loop pf inp s) = buttonStatus s"
    and "analogRead inp > 0 \<Longrightarrow> debounceState (loop pf inp s) = DEBOUNCE_STATE_IDLE \<and>
           buttonStatus (loop pf inp s) = BUTTON_1"
  using assms by (simp_all add: loop_debounce debounceSwitch_def Let_def)

lemma buttonEvents_append:
  "buttonEvents pf (xs @ ys) s = buttonEvents pf xs s @ buttonEvents pf ys (run pf xs s)"
  by (induction xs arbitrary: s) simp_all

text \<open>While the button stays down, the wait for release goes on and nothing is emitted.\<close>

lemma held_in_release:
  assumes "debounceState s = DEBOUNCE_STATE_RELEASE"
    and "\<forall>i\<in>set held. analogRead i = 0"
  shows "buttonEvents pf held s = replicate (length held) (buttonStatus s) \<and>
         debounceState (run pf held s) = DEBOUNCE_STATE_RELEASE \<and>
         buttonStatus (run pf held s) = buttonStatus s"
  using assms
proof (induction held arbitrary: s)
  case Nil
  then show ?case by simp
next
  case (Cons i held)
  from Cons.prems have st: "debounceState (loop pf i s) = DEBOUNCE_STATE_RELEASE \<and>
      buttonStatus (loop pf i s) = buttonStatus s"
    by (intro loop_debounce_release(1)) simp_all
  with Cons.prems have
    "buttonEvents pf held (loop pf i s) = replicate (length held) (buttonStatus (loop pf i s)) \<and>
     debounceState (run pf held (loop pf i s)) = DEBOUNCE_STATE_RELEASE \<and>
     buttonStatus (run pf held (loop pf i s)) = buttonStatus (loop pf i s)"
    by (intro Cons.IH) simp_all
  with st show ?case by simp
qed

text \<open>
  While the button stays down in the checking state, nothing is emitted; the state moves
  on to the wait for release as soon as one reading comes more than the debounce period
  after the recorded instant.
\<close>

lemma held_in_check:
  assumes "debounceState s = DEBOUNCE_STATE_CHECK"
    and "\<forall>i\<in>set held. analogRead i = 0"
  shows "buttonEvents pf held s = replicate (length held) (buttonStatus s) \<and>
         buttonStatus (run pf held s) = buttonStatus s \<and>
         debounceState (run pf held s) =
           (if \<exists>i\<in>set held. millisDebounce i - lastDebounceTime s > DEBOUNCE_PERIOD_MIN
            then DEBOUNCE_STATE_RELEASE else DEBOUNCE_STATE_CHECK)"
  using assms
proof (induction held arbitrary: s)
  case Nil
  then show ?case by simp
next
  case (Cons i held)
  from Cons.prems have pr: "analogRead i = 0" and rest: "\<forall>j\<in>set held. analogRead j = 0"
    by simp_all
  note ck = loop_debounce_check [OF Cons.prems(1), where pf = pf and inp = i]
  show ?case
  proof (cases "millisDebounce i - lastDebounceTime s > DEBOUNCE_PERIOD_MIN")
    case True
    with ck(3) [OF pr] have "debounceState (loop pf i s) = DEBOUNCE_STATE_RELEASE"
      by simp
    from held_in_release [OF this rest, where pf = pf] True ck(1) show ?thesis
      by simp
  next
    case False
    with ck(3) [OF pr] have "debounceState (loop pf i s) = DEBOUNCE_STATE_CHECK"
      by simp
    from Cons.IH [OF this rest] False ck(1,2) show ?thesis
      by simp
  qed
qed

text \<open>
  C8, as stated, fails at the boundary. The checking state advances only when
  \<open>millis() - lastDebounceTime > DEBOUNCE_PERIOD_MIN\<close> (line 469), strictly. A button
  read pressed at 0 ms and still pressed at 50 ms, then released at 51 ms, has been held
  for at least 50 ms and produces no event.
\<close>

theorem press_of_50ms_counterexample:
  "buttonEvents example_platform [pass 0 20 0, pass 50 20 0, pass 51 20 1] power_on
     = [BUTTON_NONE, BUTTON_NONE, BUTTON_NONE]"
  by (simp add: power_on_def setup_sketch_def eval_defs)

text \<open>
  C8, amended. Start with the debounce machine idle; let the input read pressed in the
  passes \<open>held\<close> (at least one) and released in the next pass \<open>rel\<close>. No pass of
  \<open>held\<close> ends with a button event. The pass \<open>rel\<close> ends with \<open>BUTTON_1\<close> exactly
  when some pressed reading came strictly more than \<open>DEBOUNCE_PERIOD_MIN\<close> (50 ms, as a
  32-bit clock difference) after the first pressed reading, however many pressed
  readings there are; otherwise it ends with no event. After \<open>rel\<close> the machine is idle
  again, and the event is cleared at the end of the following pass.
\<close>

theorem debounce_press_cycle:
  assumes "debounceState s = DEBOUNCE_STATE_IDLE"
    and "held \<noteq> []"
    and "\<forall>i\<in>set held. analogRead i = 0"
    and "analogRead rel > 0"
  shows "DEBOUNCE_PERIOD_MIN = 50 \<and>
     buttonEvents pf (held @ [rel]) s =
       replicate (length held) BUTTON_NONE @
       [if \<exists>i\<in>set held. millisDebounce i - millisDebounce (hd held) > DEBOUNCE_PERIOD_MIN
        then BUTTON_1 else BUTTON_NONE] \<and>
     debounceState (run pf (held @ [rel]) s) = DEBOUNCE_STATE_IDLE \<and>
     buttonStatus (loop pf nxt (run pf (held @ [rel]) s)) = BUTTON_NONE"
proof -
  from assms(2) obtain h hs where held: "held = h # hs"
    by (cases held) auto
  with assms(3) have pr: "analogRead h = 0" and rest: "\<forall>i\<in>set hs. analogRead i = 0"
    by simp_all
  let ?s1 = "loop pf h s"
  let ?s2 = "run pf hs ?s1"
  note first = loop_debounce_idle [OF assms(1), where pf = pf and inp = h]
  from first(2) [OF pr] have s1: "debounceState ?s1 = DEBOUNCE_STATE_CHECK"
    and l1: "lastDebounceTime ?s1 = millisDebounce h"
    by simp_all
  note mid = held_in_check [OF s1 rest, where pf = pf]
  have ex: "(\<exists>i\<in>set held. millisDebounce i - millisDebounce (hd held) > DEBOUNCE_PERIOD_MIN)
      \<longleftrightarrow> (\<exists>i\<in>set hs. millisDebounce i - millisDebounce h > DEBOUNCE_PERIOD_MIN)"
    by (simp add: held DEBOUNCE_PERIOD_MIN_def)
  have last_ev: "buttonStatus (loop pf rel ?s2) =
       (if \<exists>i\<in>set hs. millisDebounce i - millisDebounce h > DEBOUNCE_PERIOD_MIN
        then BUTTON_1 else BUTTON_NONE) \<and>
     debounceState (loop pf rel ?s2) = DEBOUNCE_STATE_IDLE"
  proof (cases "\<exists>i\<in>set hs. millisDebounce i - millisDebounce h > DEBOUNCE_PERIOD_MIN")
    case True
    with mid l1 have "debounceState ?s2 = DEBOUNCE_STATE_RELEASE"
      by simp
    from loop_debounce_release(2) [OF this assms(4), where pf = pf] True show ?thesis
      by simp
  next
    case False
    with mid l1 have c: "debounceState ?s2 = DEBOUNCE_STATE_CHECK"
      by simp
    from loop_debounce_check(1) [OF c, where pf = pf and inp = rel]
      loop_debounce_check(4) [OF c assms(4), where pf = pf]
      mid first(1) False
    show ?thesis by simp
  qed
  have run_eq: "run pf (held @ [rel]) s = loop pf rel ?s2"
    by (simp add: held run_append)
  have ev: "buttonEvents pf (held @ [rel]) s =
      BUTTON_NONE # replicate (length hs) BUTTON_NONE @ [buttonStatus (loop pf rel ?s2)]"
    using mid first(1) by (simp add: held buttonEvents_append)
  from last_ev have idl: "debounceState (run pf (held @ [rel]) s) = DEBOUNCE_STATE_IDLE"
    by (simp only: run_eq)
  then have nx: "buttonStatus (loop pf nxt (run pf (held @ [rel]) s)) = BUTTON_NONE"
    by (rule loop_debounce_idle(1))
  have len: "replicate (length held) BUTTON_NONE = BUTTON_NONE # replicate (length hs) BUTTON_NONE"
    by (simp add: held)
  from last_ev have "buttonEvents pf (held @ [rel]) s =
       replicate (length held) BUTTON_NONE @
       [if \<exists>i\<in>set held. millisDebounce i - millisDebounce (hd held) > DEBOUNCE_PERIOD_MIN
        then BUTTON_1 else BUTTON_NONE]"
    by (simp only: ev len ex) simp
  with idl nx show ?thesis
    by (simp add: DEBOUNCE_PERIOD_MIN_def)
qed

text \<open>
  Pressed at 0 ms, 30 ms, 51 ms and 400 ms, released at 401 ms: one event, at the
  release. Pressed at 0 ms and 50 ms, released at 51 ms: none.
\<close>

theorem debounce_press_cycle_witness:
  "debounceState power_on = DEBOUNCE_STATE_IDLE \<and>
   buttonEvents example_platform
     ([pass 0 20 0, pass 30 20 0, pass 51 20 0, pass 400 20 0] @ [pass 401 20 1]) power_on
     = [BUTTON_NONE, BUTTON_NONE, BUTTON_NONE, BUTTON_NONE, BUTTON_1] \<and>
   buttonEvents example_platform ([pass 0 20 0, pass 50 20 0] @ [pass 51 20 1]) power_on
     = [BUTTON_NONE, BUTTON_NONE, BUTTON_NONE]"
proof -
  have i: "debounceState power_on = DEBOUNCE_STATE_IDLE"
    by (simp add: power_on_def setup_sketch_def)
  have l1: "[pass 0 20 0, pass 30 20 0, pass 51 20 0, pass 400 20 0] \<noteq> []"
    and l2: "\<forall>i\<in>set [pass 0 20 0, pass 30 20 0, pass 51 20 0, pass 400 20 0]. analogRead i = 0"
    and l3: "analogRead (pass 401 20 1) > 0"
    and l4: "\<exists>i\<in>set [pass 0 20 0, pass 30 20 0, pass 51 20 0, pass 400 20 0].
        millisDebounce i - millisDebounce (hd [pass 0 20 0, pass 30 20 0, pass 51 20 0, pass 400 20 0])
          > DEBOUNCE_PERIOD_MIN"
    by (simp_all add: pass_def DEBOUNCE_PERIOD_MIN_def)
  have s1: "[pass 0 20 0, pass 50 20 0] \<noteq> []"
    and s2: "\<forall>i\<in>set [pass 0 20 0, pass 50 20 0]. analogRead i = 0"
    and s3: "analogRead (pass 51 20 1) > 0"
    and s4: "\<not> (\<exists>i\<in>set [pass 0 20 0, pass 50 20 0].
        millisDebounce i - millisDebounce (hd [pass 0 20 0, pass 50 20 0])
          > DEBOUNCE_PERIOD_MIN)"
    by (simp_all add: pass_def DEBOUNCE_PERIOD_MIN_def)
  have ra: "replicate (length [pass 0 20 0, pass 30 20 0, pass 51 20 0, pass 400 20 0])
      BUTTON_NONE @ [BUTTON_1] = [BUTTON_NONE, BUTTON_NONE, BUTTON_NONE, BUTTON_NONE, BUTTON_1]"
    and rb: "replicate (length [pass 0 20 0, pass 50 20 0])
      BUTTON_NONE @ [BUTTON_NONE] = [BUTTON_NONE, BUTTON_NONE, BUTTON_NONE]"
    by simp_all
  note ea = debounce_press_cycle [OF i l1 l2 l3, where pf = example_platform,
      THEN conjunct2, THEN conjunct1]
  note eb = debounce_press_cycle [OF i s1 s2 s3, where pf = example_platform,
      THEN conjunct2, THEN conjunct1]
  from ea l4 have ea': "buttonEvents example_platform
      ([pass 0 20 0, pass 30 20 0, pass 51 20 0, pass 400 20 0] @ [pass 401 20 1]) power_on
      = replicate (length [pass 0 20 0, pass 30 20 0, pass 51 20 0, pass 400 20 0])
          BUTTON_NONE @ [BUTTON_1]"
    by (simp only: if_True)
  from eb s4 have eb': "buttonEvents example_platform
      ([pass 0 20 0, pass 50 20 0] @ [pass 51 20 1]) power_on
      = replicate (length [pass 0 20 0, pass 50 20 0]) BUTTON_NONE @ [BUTTON_NONE]"
    by (simp only: if_False)
  from i ea' [unfolded ra] eb' [unfolded rb] show ?thesis
    by blast
qed

section \<open>Threshold transitions and the SSR pin\<close>

lemma switch_transition:
  assumes "reflowPhase x = REFLOW_PHASE_PREHEAT \<and>
             reflowPhase (reflowSwitch pf inp x) = REFLOW_PHASE_SOAK \<or>
           reflowPhase x = REFLOW_PHASE_SOAK \<and>
             reflowPhase (reflowSwitch pf inp x) = REFLOW_PHASE_REFLOW \<or>
           reflowPhase x = REFLOW_PHASE_REFLOW \<and>
             reflowPhase (reflowSwitch pf inp x) = REFLOW_PHASE_PEAK"
  shows "ssrPin (reflowSwitch pf inp x) = ssrPin x \<and>
     ovenStatus (reflowSwitch pf inp x) = OVEN_ON \<and>
     reflowPhase (reflowSwitch pf inp x) \<noteq> REFLOW_PHASE_IDLE \<and>
     (reflowPhase x = REFLOW_PHASE_PREHEAT \<and> temp x \<ge> SOAK_TEMPERATURE \<or>
      reflowPhase x = REFLOW_PHASE_SOAK \<and> millisPhase inp > phaseStartTime x + SOAK_PERIOD \<or>
      reflowPhase x = REFLOW_PHASE_REFLOW \<and> temp x \<ge> PEAK_TEMPERATURE)"
  using assms
  by (auto simp: reflowSwitch_def Let_def split: if_splits)

lemma ssrGuard_on: "ovenStatus z = OVEN_ON \<Longrightarrow> ssrGuard z = z"
  by (simp add: ssrGuard_def)

text \<open>
  C9, as stated, fails when a validated press is pending in the pass in which the
  transition fires. In the example the press is pending in Reflow with the heater on and
  the sample reads 237 degrees: the Reflow case takes the transition to Peak and leaves
  the pin alone, but then the cancel branch writes the pin low (line 443) and sets the
  oven status off.
\<close>

theorem transition_no_write_counterexample:
  "reachable example_platform (run example_platform reflow_press_trace power_on) \<and>
   reflowPhase (run example_platform reflow_press_trace power_on) = REFLOW_PHASE_REFLOW \<and>
   ssrPin (run example_platform reflow_press_trace power_on) \<and>
   temp (loop example_platform (pass 90700 237 1)
     (run example_platform reflow_press_trace power_on)) \<ge> PEAK_TEMPERATURE \<and>
   reflowPhase (reflowSwitch example_platform (pass 90700 237 1)
     (displayStep (pass 90700 237 1) (sampleStep example_platform (pass 90700 237 1)
       (run example_platform reflow_press_trace power_on)))) = REFLOW_PHASE_PEAK \<and>
   \<not> ssrPin (loop example_platform (pass 90700 237 1)
     (run example_platform reflow_press_trace power_on)) \<and>
   ovenStatus (loop example_platform (pass 90700 237 1)
     (run example_platform reflow_press_trace power_on)) = OVEN_OFF"
  using example_reachable [of reflow_press_trace]
  by (simp add: reflow_press_state sampleStep_temp eval_defs)

text \<open>
  C9, amended. Take a pass whose phase switch takes the transition out of Preheat, out
  of Soak or out of Reflow. No sensor fault was sampled in it, and the exit condition of
  the phase holds (temperature in force at least \<open>SOAK_TEMPERATURE\<close>, clock beyond the
  32-bit sum \<open>phaseStartTime + SOAK_PERIOD\<close>, temperature at least
  \<open>PEAK_TEMPERATURE\<close>). The phase switch does not write the SSR pin. If no validated
  press is pending, nothing else writes it either: the oven status at the end is
  \<open>OVEN_ON\<close>, the cancel branch and the closing safety clause change nothing, and the
  pin ends the pass with the value it had at the beginning, high included. If a
  validated press is pending, the cancel branch writes the pin low in that same pass and
  the pass ends in Idle with the oven status off.
\<close>

theorem threshold_transition_keeps_ssr:
  assumes "transitionFires pf inp s"
  shows "\<not> faultSampled pf inp s \<and>
     (reflowPhase s = REFLOW_PHASE_PREHEAT \<and> temp (loop pf inp s) \<ge> SOAK_TEMPERATURE \<or>
      reflowPhase s = REFLOW_PHASE_SOAK \<and> millisPhase inp > phaseStartTime s + SOAK_PERIOD \<or>
      reflowPhase s = REFLOW_PHASE_REFLOW \<and> temp (loop pf inp s) \<ge> PEAK_TEMPERATURE) \<and>
     ssrPin (reflowSwitch pf inp (displayStep inp (sampleStep pf inp s))) = ssrPin s \<and>
     (buttonStatus s \<noteq> BUTTON_1 \<longrightarrow>
        ssrPin (loop pf inp s) = ssrPin s \<and>
        ovenStatus (loop pf inp s) = OVEN_ON \<and>
        reflowPhase (loop pf inp s)
          = reflowPhase (reflowSwitch pf inp (displayStep inp (sampleStep pf inp s))) \<and>
        loop pf inp s =
          debounceSwitch inp (reflowSwitch pf inp (displayStep inp (sampleStep pf inp s)))) \<and>
     (buttonStatus s = BUTTON_1 \<longrightarrow>
        \<not> ssrPin (loop pf inp s) \<and>
        ovenStatus (loop pf inp s) = OVEN_OFF \<and>
        reflowPhase (loop pf inp s) = REFLOW_PHASE_IDLE)"
proof -
  let ?m = "displayStep inp (sampleStep pf inp s)"
  let ?w = "reflowSwitch pf inp ?m"
  from assms have tr:
    "reflowPhase ?m = REFLOW_PHASE_PREHEAT \<and> reflowPhase ?w = REFLOW_PHASE_SOAK \<or>
     reflowPhase ?m = REFLOW_PHASE_SOAK \<and> reflowPhase ?w = REFLOW_PHASE_REFLOW \<or>
     reflowPhase ?m = REFLOW_PHASE_REFLOW \<and> reflowPhase ?w = REFLOW_PHASE_PEAK"
    by (simp only: transitionFires_def)
  then have "reflowPhase ?m \<noteq> REFLOW_PHASE_ERROR"
    by auto
  then have nf: "\<not> faultSampled pf inp s"
    by (auto simp: sampleStep_phase)
  then have ph: "reflowPhase ?m = reflowPhase s"
    by (simp add: sampleStep_phase)
  note st = switch_transition [OF tr]
  from st ph have cond:
    "reflowPhase s = REFLOW_PHASE_PREHEAT \<and> temp (loop pf inp s) \<ge> SOAK_TEMPERATURE \<or>
     reflowPhase s = REFLOW_PHASE_SOAK \<and> millisPhase inp > phaseStartTime s + SOAK_PERIOD \<or>
     reflowPhase s = REFLOW_PHASE_REFLOW \<and> temp (loop pf inp s) \<ge> PEAK_TEMPERATURE"
    by simp
  from st have w: "ssrPin ?w = ssrPin s" "ovenStatus ?w = OVEN_ON"
    "reflowPhase ?w \<noteq> REFLOW_PHASE_IDLE"
    by simp_all
  have quiet: "ssrPin (loop pf inp s) = ssrPin s \<and>
      ovenStatus (loop pf inp s) = OVEN_ON \<and>
      reflowPhase (loop pf inp s) = reflowPhase ?w \<and>
      loop pf inp s = debounceSwitch inp ?w"
    if nb: "buttonStatus s \<noteq> BUTTON_1"
  proof -
    from nb have c: "cancelStep ?w = ?w"
      by (simp add: cancelStep_def)
    have "ovenStatus (debounceSwitch inp ?w) = OVEN_ON"
      using w(2) by simp
    then have "ssrGuard (debounceSwitch inp ?w) = debounceSwitch inp ?w"
      by (rule ssrGuard_on)
    then have "loop pf inp s = debounceSwitch inp ?w"
      by (simp add: loop_def c)
    with w show ?thesis by simp
  qed
  have cancelled: "\<not> ssrPin (loop pf inp s) \<and>
      ovenStatus (loop pf inp s) = OVEN_OFF \<and>
      reflowPhase (loop pf inp s) = REFLOW_PHASE_IDLE"
    if b: "buttonStatus s = BUTTON_1"
  proof -
    from b w(2) have "cancelStep ?w =
        ?w\<lparr> ovenStatus := OVEN_OFF, ssrPin := False, reflowPhase := REFLOW_PHASE_IDLE \<rparr>"
      by (simp add: cancelStep_def)
    then show ?thesis
      by (simp add: loop_def ssrGuard_ssr)
  qed
  from nf cond w(1) quiet cancelled show ?thesis
    by blast
qed

text \<open>
  In Preheat with the heater on and no press pending, a sample of 150 degrees moves to
  Soak and the heater stays on. In Reflow with the heater on and a press pending, a
  sample of 237 degrees ends the pass in Idle with the heater off.
\<close>

theorem threshold_transition_keeps_ssr_witness:
  "transitionFires example_platform (pass 300 150 1)
     (run example_platform heat_trace power_on) \<and>
   buttonStatus (run example_platform heat_trace power_on) \<noteq> BUTTON_1 \<and>
   ssrPin (run example_platform heat_trace power_on) \<and>
   reflowPhase (loop example_platform (pass 300 150 1)
     (run example_platform heat_trace power_on)) = REFLOW_PHASE_SOAK \<and>
   ssrPin (loop example_platform (pass 300 150 1)
     (run example_platform heat_trace power_on)) \<and>
   transitionFires example_platform (pass 90700 237 1)
     (run example_platform reflow_press_trace power_on) \<and>
   buttonStatus (run example_platform reflow_press_trace power_on) = BUTTON_1 \<and>
   reflowPhase (loop example_platform (pass 90700 237 1)
     (run example_platform reflow_press_trace power_on)) = REFLOW_PHASE_IDLE \<and>
   \<not> ssrPin (loop example_platform (pass 90700 237 1)
     (run example_platform reflow_press_trace power_on))"
proof -
  let ?h = "run example_platform heat_trace power_on"
  let ?r = "run example_platform reflow_press_trace power_on"
  have h: "transitionFires example_platform (pass 300 150 1) ?h"
    "buttonStatus ?h \<noteq> BUTTON_1" "ssrPin ?h"
    "reflowPhase (reflowSwitch example_platform (pass 300 150 1)
       (displayStep (pass 300 150 1) (sampleStep example_platform (pass 300 150 1) ?h)))
       = REFLOW_PHASE_SOAK"
    by (simp_all add: transitionFires_def heat_state eval_defs)
  have r: "transitionFires example_platform (pass 90700 237 1) ?r"
    "buttonStatus ?r = BUTTON_1"
    by (simp_all add: transitionFires_def reflow_press_state eval_defs)
  from h r
    threshold_transition_keeps_ssr [OF h(1)]
    threshold_transition_keeps_ssr [OF r(1)]
  show ?thesis by metis
qed

section \<open>Starting from Idle\<close>

text \<open>
  C10. Take a pass that begins in Idle with a validated press pending, in which no
  sensor fault is sampled and the temperature in force is below \<open>ROOM_TEMPERATURE\<close>.
  After the phase switch the oven status is \<open>OVEN_OFF\<close>, so the cancel test changes
  nothing: the press is used once, to start. The pass ends in Preheat with the oven
  status still off, \<open>phaseStartTime\<close> equal to the clock read at line 283 and
  \<open>phaseStartTemp\<close> equal to the temperature in force.
\<close>

theorem idle_press_starts:
  assumes "reflowPhase s = REFLOW_PHASE_IDLE" and "buttonStatus s = BUTTON_1"
    and "\<not> faultSampled pf inp s" and "temp (loop pf inp s) < ROOM_TEMPERATURE"
  shows "ovenStatus (reflowSwitch pf inp (displayStep inp (sampleStep pf inp s))) = OVEN_OFF \<and>
     cancelStep (reflowSwitch pf inp (displayStep inp (sampleStep pf inp s)))
       = reflowSwitch pf inp (displayStep inp (sampleStep pf inp s)) \<and>
     reflowPhase (loop pf inp s) = REFLOW_PHASE_PREHEAT \<and>
     ovenStatus (loop pf inp s) = OVEN_OFF \<and>
     phaseStartTime (loop pf inp s) = millisPhase inp \<and>
     phaseStartTemp (loop pf inp s) = temp (loop pf inp s)"
proof -
  from assms(4) have "temp (sampleStep pf inp s) < ROOM_TEMPERATURE"
    by simp
  with assms(1-3) show ?thesis
    by (simp add: loop_def reflowSwitch_def cancelStep_def Let_def sampleStep_phase)
qed

text \<open>
  After the press of the example run the device is in Idle at 20 degrees with the press
  pending; the pass at 300 ms samples 25 degrees and starts Preheat from there.
\<close>

theorem idle_press_starts_witness:
  "reflowPhase (run example_platform press_trace power_on) = REFLOW_PHASE_IDLE \<and>
   buttonStatus (run example_platform press_trace power_on) = BUTTON_1 \<and>
   temp (loop example_platform (pass 300 25 1) (run example_platform press_trace power_on)) = 25 \<and>
   reflowPhase (loop example_platform (pass 300 25 1) (run example_platform press_trace power_on))
     = REFLOW_PHASE_PREHEAT \<and>
   ovenStatus (loop example_platform (pass 300 25 1) (run example_platform press_trace power_on))
     = OVEN_OFF \<and>
   phaseStartTime (loop example_platform (pass 300 25 1) (run example_platform press_trace power_on))
     = 300 \<and>
   phaseStartTemp (loop example_platform (pass 300 25 1) (run example_platform press_trace power_on))
     = 25"
proof -
  let ?s = "run example_platform press_trace power_on"
  have h1: "reflowPhase ?s = REFLOW_PHASE_IDLE" and h2: "buttonStatus ?s = BUTTON_1"
    by (simp_all add: press_state)
  have h3: "\<not> faultSampled example_platform (pass 300 25 1) ?s"
    and h4: "temp (loop example_platform (pass 300 25 1) ?s) < ROOM_TEMPERATURE"
    and h5: "temp (loop example_platform (pass 300 25 1) ?s) = 25"
    and h6: "millisPhase (pass 300 25 1) = 300"
    by (simp_all add: press_state sampleStep_temp eval_defs)
  from idle_press_starts [OF h1 h2 h3 h4] h1 h2 h5 h6
  show ?thesis by metis
qed

end
